theory Spec2Isabelle
  imports Main "HOL-Library.Multiset"
begin

section \<open>Python values used by the memory subsystem\<close>

text \<open>
  Exceptions are values. \<open>ValueError\<close> carries the message of the source;
  \<open>ExternalError\<close> stands for any exception raised by an external collaborator
  (the LLM client); \<open>DatabaseError\<close> for an exception raised by the ORM session
  on commit or refresh.
\<close>

datatype error =
    ValueError string
  | ZeroDivisionError
  | ExternalError string
  | DatabaseError string

text \<open>\<open>x or y\<close> on an optional integer: \<open>None\<close> and \<open>0\<close> are falsy.\<close>

definition py_or :: "int option \<Rightarrow> int \<Rightarrow> int" where
  "py_or x y = (case x of None \<Rightarrow> y | Some v \<Rightarrow> if v = 0 then y else v)"

text \<open>\<open>if limit:\<close> on an optional integer.\<close>

definition py_truthy :: "int option \<Rightarrow> bool" where
  "py_truthy x = (case x of None \<Rightarrow> False | Some v \<Rightarrow> v \<noteq> 0)"

text \<open>
  The slice \<open>xs[-n:]\<close>. For \<open>n > 0\<close> it is the last \<open>n\<close> elements (all of them
  when the list is shorter); for \<open>n = 0\<close> it is \<open>xs[0:]\<close>, the whole list; for
  \<open>n < 0\<close> the start index \<open>-n\<close> is positive and the first \<open>-n\<close> elements are
  dropped.
\<close>

definition py_slice_last :: "int \<Rightarrow> 'a list \<Rightarrow> 'a list" where
  "py_slice_last n xs =
     (if 0 < n then drop (length xs - nat n) xs else drop (nat (- n)) xs)"

text \<open>\<open>sep.join(parts)\<close>.\<close>

fun py_join :: "string \<Rightarrow> string list \<Rightarrow> string" where
  "py_join sep [] = []"
| "py_join sep [p] = p"
| "py_join sep (p # q # ps) = p @ sep @ py_join sep (q # ps)"

text \<open>
  \<open>str.strip()\<close>: the whitespace characters of Python with a code point below 256.
\<close>

definition py_isspace :: "char \<Rightarrow> bool" where
  "py_isspace c = ((of_char c :: nat) \<in> {9, 10, 11, 12, 13, 28, 29, 30, 31, 32, 133, 160})"

definition py_strip :: "string \<Rightarrow> string" where
  "py_strip s = rev (dropWhile py_isspace (rev (dropWhile py_isspace s)))"

text \<open>\<open>try: body / except Exception: handler\<close>.\<close>

definition try_except :: "error + 'a \<Rightarrow> (error \<Rightarrow> error + 'a) \<Rightarrow> error + 'a" where
  "try_except body handler = (case body of Inl e \<Rightarrow> handler e | Inr v \<Rightarrow> Inr v)"

section \<open>Configuration (config.py)\<close>

record settings =
  llm_model :: string
  memory_max_tokens :: int
  memory_buffer_messages :: int
  memory_summary_trigger :: int

definition default_settings :: settings where
  "default_settings =
     \<lparr> llm_model = ''google/gemini-flash-1.5'',
       memory_max_tokens = 2000,
       memory_buffer_messages = 10,
       memory_summary_trigger = 15 \<rparr>"

section \<open>Short-term memory (memory/short\_term.py)\<close>

text \<open>The langchain message classes stored in the buffer and sent to the LLM.\<close>

datatype lc_message = HumanMessage string | AIMessage string | SystemMessage string

text \<open>A message dictionary with the keys \<open>role\<close> and \<open>content\<close>.\<close>

record msg_dict =
  role :: string
  content :: string

text \<open>
  The external collaborators of the class: the chat model (\<open>self.llm.invoke\<close>, which
  returns the text of the response or raises) and the tokenizer
  (\<open>self.tokenizer.encode\<close>, which returns the tokens of a text or raises: the encoder
  of tiktoken rejects a text that contains a special token).
\<close>

type_synonym llm = "lc_message list \<Rightarrow> error + string"

type_synonym tokenizer = "string \<Rightarrow> error + nat list"

record ShortTermMemory =
  max_tokens_before_summary :: int
  messages_to_keep :: int
  stm_llm_model :: string
  messages :: "lc_message list"

definition ShortTermMemory_init ::
  "settings \<Rightarrow> int option \<Rightarrow> int option \<Rightarrow> string option \<Rightarrow> ShortTermMemory" where
  "ShortTermMemory_init st max_tokens to_keep model =
     \<lparr> max_tokens_before_summary = py_or max_tokens (memory_max_tokens st),
       messages_to_keep = py_or to_keep (memory_buffer_messages st),
       stm_llm_model = (case model of None \<Rightarrow> llm_model st
                        | Some m \<Rightarrow> if m = [] then llm_model st else m),
       messages = [] \<rparr>"

definition invalid_role :: "string \<Rightarrow> error" where
  "invalid_role r = ValueError (''Invalid role: '' @ r @ ''. Must be 'user' or 'assistant'' @ [CHR 0x27])"

text \<open>The trimming step at the end of \<open>add_message\<close>.\<close>

definition trim_buffer :: "ShortTermMemory \<Rightarrow> ShortTermMemory" where
  "trim_buffer s =
     (if int (length (messages s)) > messages_to_keep s * 2
      then s\<lparr>messages := py_slice_last (messages_to_keep s) (messages s)\<rparr>
      else s)"

definition ShortTermMemory_add_message ::
  "string \<Rightarrow> string \<Rightarrow> ShortTermMemory \<Rightarrow> error + ShortTermMemory" where
  "ShortTermMemory_add_message r c s =
     (if r = ''user'' then Inr (trim_buffer (s\<lparr>messages := messages s @ [HumanMessage c]\<rparr>))
      else if r = ''assistant''
        then Inr (trim_buffer (s\<lparr>messages := messages s @ [AIMessage c]\<rparr>))
      else Inl (invalid_role r))"

text \<open>The loop body of \<open>get_recent_messages\<close>: other message classes are skipped.\<close>

fun format_message :: "lc_message \<Rightarrow> msg_dict option" where
  "format_message (HumanMessage c) = Some \<lparr>role = ''user'', content = c\<rparr>"
| "format_message (AIMessage c) = Some \<lparr>role = ''assistant'', content = c\<rparr>"
| "format_message (SystemMessage c) = None"

definition ShortTermMemory_get_recent_messages ::
  "int option \<Rightarrow> ShortTermMemory \<Rightarrow> msg_dict list" where
  "ShortTermMemory_get_recent_messages limit s =
     (let ms = (if py_truthy limit then py_slice_last (the limit) (messages s)
                else messages s)
      in List.map_filter format_message ms)"

definition buffer_line :: "msg_dict \<Rightarrow> string" where
  "buffer_line m = (if role m = ''user'' then ''Human:'' else ''AI:'') @ '' '' @ content m"

definition get_buffer_string :: "ShortTermMemory \<Rightarrow> string" where
  "get_buffer_string s =
     py_join ''\<newline>'' (map buffer_line (ShortTermMemory_get_recent_messages None s))"

definition count_tokens :: "tokenizer \<Rightarrow> string \<Rightarrow> error + int" where
  "count_tokens tok text =
     (case tok text of Inl e \<Rightarrow> Inl e | Inr tokens \<Rightarrow> Inr (int (length tokens)))"

definition summarizer_system_prompt :: string where
  "summarizer_system_prompt =
     ''You are a conversation summarizer. Create a concise summary of the conversation below.\<newline>''
     @ ''\<newline>''
     @ ''Focus on:\<newline>''
     @ ''- Main topics discussed\<newline>''
     @ ''- Key questions asked\<newline>''
     @ ''- Important information provided\<newline>''
     @ ''- Any decisions or conclusions\<newline>''
     @ ''\<newline>''
     @ ''Keep the summary brief (2-3 sentences) but informative.''"

definition summary_request :: "string \<Rightarrow> lc_message list" where
  "summary_request conversation_text =
     [SystemMessage summarizer_system_prompt,
      HumanMessage (''Summarize this conversation:\<newline>\<newline>'' @ conversation_text)]"

text \<open>
  In \<open>get_conversation_summary\<close> the buffer string is built and its tokens are counted
  before the \<open>try\<close>: an exception of the tokenizer reaches the caller. Only the call of
  the LLM and the stripping of its output are inside the \<open>try\<close>.
\<close>

definition get_conversation_summary ::
  "llm \<Rightarrow> tokenizer \<Rightarrow> ShortTermMemory \<Rightarrow> error + string" where
  "get_conversation_summary invoke tok s =
     (if length (messages s) < 4 then Inr ''''
      else
        let conversation_text = get_buffer_string s
        in (case count_tokens tok conversation_text of
              Inl e \<Rightarrow> Inl e
            | Inr token_count \<Rightarrow>
                if token_count < max_tokens_before_summary s then Inr ''''
                else try_except
                       (case invoke (summary_request conversation_text) of
                          Inl e \<Rightarrow> Inl e
                        | Inr response \<Rightarrow> Inr (py_strip response))
                       (\<lambda>e. Inr '''')))"

definition clear :: "ShortTermMemory \<Rightarrow> ShortTermMemory" where
  "clear s = s\<lparr>messages := []\<rparr>"

text \<open>
  A sequence of \<open>add_message\<close> calls, one per item, that stops at the first exception.
\<close>

fun add_messages :: "msg_dict list \<Rightarrow> ShortTermMemory \<Rightarrow> error + ShortTermMemory" where
  "add_messages [] s = Inr s"
| "add_messages (m # ms) s =
     (case ShortTermMemory_add_message (role m) (content m) s of
        Inl e \<Rightarrow> Inl e
      | Inr s' \<Rightarrow> add_messages ms s')"

text \<open>
  \<open>load_from_messages\<close> clears the buffer and calls \<open>add_message\<close> for each item.
  When a call raises, the exception leaves the method and the buffer stays as the calls
  before it left it: cleared, and holding the items added so far. The buffer is
  therefore returned next to the outcome.
\<close>

fun load_loop :: "msg_dict list \<Rightarrow> ShortTermMemory \<Rightarrow> error option \<times> ShortTermMemory" where
  "load_loop [] s = (None, s)"
| "load_loop (m # ms) s =
     (case ShortTermMemory_add_message (role m) (content m) s of
        Inl e \<Rightarrow> (Some e, s)
      | Inr s' \<Rightarrow> load_loop ms s')"

definition load_from_messages ::
  "msg_dict list \<Rightarrow> ShortTermMemory \<Rightarrow> error option \<times> ShortTermMemory" where
  "load_from_messages ms s = load_loop ms (clear s)"

text \<open>
  \<open>load_messages_batch\<close> appends item by item and raises at the first invalid role; the
  items appended before the exception stay in the buffer, so the buffer is returned
  next to the outcome.
\<close>

fun load_messages_batch ::
  "msg_dict list \<Rightarrow> ShortTermMemory \<Rightarrow> error option \<times> ShortTermMemory" where
  "load_messages_batch [] s = (None, s)"
| "load_messages_batch (m # ms) s =
     (if role m = ''user''
        then load_messages_batch ms (s\<lparr>messages := messages s @ [HumanMessage (content m)]\<rparr>)
      else if role m = ''assistant''
        then load_messages_batch ms (s\<lparr>messages := messages s @ [AIMessage (content m)]\<rparr>)
      else (Some (invalid_role (role m)), s))"

text \<open>The buffer entry that a valid message dictionary becomes.\<close>

definition to_lc_message :: "msg_dict \<Rightarrow> lc_message" where
  "to_lc_message m = (if role m = ''user'' then HumanMessage (content m) else AIMessage (content m))"

definition valid_role :: "msg_dict \<Rightarrow> bool" where
  "valid_role m = (role m = ''user'' \<or> role m = ''assistant'')"

text \<open>The message classes that \<open>add_message\<close> and \<open>load_messages_batch\<close> store.\<close>

fun is_chat_message :: "lc_message \<Rightarrow> bool" where
  "is_chat_message (HumanMessage c) = True"
| "is_chat_message (AIMessage c) = True"
| "is_chat_message (SystemMessage c) = False"

text \<open>The rolling-buffer bound.\<close>

definition buffer_bounded :: "ShortTermMemory \<Rightarrow> bool" where
  "buffer_bounded s = (int (length (messages s)) \<le> 2 * messages_to_keep s)"

section \<open>Long-term memory (memory/models.py, memory/schemas.py, memory/long\_term.py)\<close>

text \<open>
  The ORM classes and the pydantic schemas are records. Several classes have fields of the
  same name (\<open>session_id\<close>, \<open>role\<close>, ...), so each record prefixes its fields:
  \<open>cs_\<close> for \<open>ChatSession\<close>, \<open>cm_\<close> for \<open>ChatMessage\<close> (and
  \<open>ChatMessageResponse\<close>, which has the same attributes), \<open>mc_\<close> for
  \<open>ChatMessageCreate\<close>, \<open>sc_\<close> for \<open>ChatSessionCreate\<close>, \<open>su_\<close> for
  \<open>ChatSessionUpdate\<close>. A \<open>datetime\<close> is a point on an integer time line, a JSONB
  value is its text.
\<close>

type_synonym datetime = int

type_synonym json = string

record ChatSession =
  cs_id :: nat
  cs_session_id :: string
  cs_pdf_ids :: "int list"
  cs_user_id :: "string option"
  cs_created_at :: datetime
  cs_last_activity :: datetime
  cs_summary :: "string option"
  cs_total_messages :: int
  cs_session_metadata :: "json option"

record ChatMessage =
  cm_id :: nat
  cm_session_id :: string
  cm_role :: string
  cm_content :: string
  cm_timestamp :: datetime
  cm_sources :: "json list option"
  cm_token_count :: "int option"

record ChatMessageCreate =
  mc_session_id :: string
  mc_role :: string
  mc_content :: string
  mc_sources :: "json list option"
  mc_token_count :: "int option"

record ChatSessionCreate =
  sc_session_id :: string
  sc_pdf_ids :: "int list"
  sc_user_id :: "string option"

record ChatSessionUpdate =
  su_summary :: "string option"
  su_total_messages :: "int option"
  su_session_metadata :: "json option"

text \<open>
  The persisted tables, in insertion order, with the two primary-key sequences.
\<close>

record database =
  chat_sessions :: "ChatSession list"
  chat_messages :: "ChatMessage list"
  next_session_id :: nat
  next_message_id :: nat

text \<open>
  What a call reads from outside the program: whether the database accepts the
  transaction of a \<open>commit\<close>, the server clock (\<open>func.now()\<close>) and the client
  clock (\<open>datetime.now()\<close>).
\<close>

record env =
  commit_succeeds :: bool
  server_now :: datetime
  client_now :: datetime

text \<open>
  The unit of work of the ORM session: objects added with \<open>db.add\<close> and objects whose
  attributes were set are written by the next \<open>commit\<close>, in one transaction.
  \<open>InsertSession\<close> carries the constructor arguments of \<open>ChatSession\<close> (the creation
  data and \<open>total_messages\<close>), \<open>InsertMessage\<close> those of \<open>ChatMessage\<close>,
  \<open>UpdateSession\<close> the modified session object.
\<close>

datatype change =
    InsertSession ChatSessionCreate int
  | InsertMessage ChatMessageCreate
  | UpdateSession ChatSession

text \<open>
  One statement of the flush. The constraints of models.py are checked: \<open>session_id\<close>
  is unique in \<open>chat_sessions\<close>, a message references an existing session, an update
  addresses an existing row by primary key. Server defaults fill \<open>id\<close>,
  \<open>created_at\<close>, \<open>last_activity\<close> and \<open>timestamp\<close>.
\<close>

fun flush_change :: "datetime \<Rightarrow> change \<Rightarrow> database \<Rightarrow> error + database" where
  "flush_change now (InsertSession sc total_messages) db =
     (if list_ex (\<lambda>r. cs_session_id r = sc_session_id sc) (chat_sessions db)
      then Inl (DatabaseError ''IntegrityError: duplicate session_id'')
      else Inr (db\<lparr>chat_sessions := chat_sessions db @
                  [\<lparr> cs_id = next_session_id db,
                     cs_session_id = sc_session_id sc,
                     cs_pdf_ids = sc_pdf_ids sc,
                     cs_user_id = sc_user_id sc,
                     cs_created_at = now,
                     cs_last_activity = now,
                     cs_summary = None,
                     cs_total_messages = total_messages,
                     cs_session_metadata = None \<rparr>],
                next_session_id := Suc (next_session_id db)\<rparr>))"
| "flush_change now (InsertMessage mc) db =
     (if list_ex (\<lambda>r. cs_session_id r = mc_session_id mc) (chat_sessions db)
      then Inr (db\<lparr>chat_messages := chat_messages db @
                  [\<lparr> cm_id = next_message_id db,
                     cm_session_id = mc_session_id mc,
                     cm_role = mc_role mc,
                     cm_content = mc_content mc,
                     cm_timestamp = now,
                     cm_sources = mc_sources mc,
                     cm_token_count = mc_token_count mc \<rparr>],
                next_message_id := Suc (next_message_id db)\<rparr>)
      else Inl (DatabaseError ''IntegrityError: foreign key chat_messages.session_id''))"
| "flush_change now (UpdateSession obj) db =
     (if list_ex (\<lambda>r. cs_id r = cs_id obj) (chat_sessions db)
      then Inr (db\<lparr>chat_sessions :=
                  map (\<lambda>r. if cs_id r = cs_id obj then obj else r) (chat_sessions db)\<rparr>)
      else Inl (DatabaseError ''StaleDataError: session row not found''))"

fun flush :: "datetime \<Rightarrow> change list \<Rightarrow> database \<Rightarrow> error + database" where
  "flush now [] db = Inr db"
| "flush now (c # cs) db =
     (case flush_change now c db of Inl e \<Rightarrow> Inl e | Inr db' \<Rightarrow> flush now cs db')"

text \<open>
  \<open>db.commit()\<close>: all pending changes or none. When it raises, the caller keeps the
  tables it had.
\<close>

definition commit :: "env \<Rightarrow> change list \<Rightarrow> database \<Rightarrow> error + database" where
  "commit e pending db =
     (if commit_succeeds e then flush (server_now e) pending db
      else Inl (DatabaseError ''OperationalError''))"

text \<open>\<open>db.refresh(obj)\<close>: the row with the object's primary key.\<close>

definition refresh_session :: "nat \<Rightarrow> database \<Rightarrow> error + ChatSession" where
  "refresh_session pk db =
     (case find (\<lambda>r. cs_id r = pk) (chat_sessions db) of
        None \<Rightarrow> Inl (DatabaseError ''InvalidRequestError: could not refresh instance'')
      | Some r \<Rightarrow> Inr r)"

definition refresh_message :: "nat \<Rightarrow> database \<Rightarrow> error + ChatMessage" where
  "refresh_message pk db =
     (case find (\<lambda>r. cm_id r = pk) (chat_messages db) of
        None \<Rightarrow> Inl (DatabaseError ''InvalidRequestError: could not refresh instance'')
      | Some r \<Rightarrow> Inr r)"

definition create_session ::
  "env \<Rightarrow> ChatSessionCreate \<Rightarrow> database \<Rightarrow> (error + ChatSession) \<times> database" where
  "create_session e session_data db =
     (case commit e [InsertSession session_data 0] db of
        Inl err \<Rightarrow> (Inl err, db)
      | Inr db' \<Rightarrow> (refresh_session (next_session_id db) db', db'))"

definition get_session :: "string \<Rightarrow> database \<Rightarrow> ChatSession option" where
  "get_session sid db = find (\<lambda>r. cs_session_id r = sid) (chat_sessions db)"

definition get_or_create_session ::
  "env \<Rightarrow> string \<Rightarrow> int list \<Rightarrow> string option \<Rightarrow> database
     \<Rightarrow> (error + ChatSession) \<times> database" where
  "get_or_create_session e sid pdf_ids user_id db =
     (case get_session sid db of
        None \<Rightarrow>
          create_session e
            \<lparr>sc_session_id = sid, sc_pdf_ids = pdf_ids, sc_user_id = user_id\<rparr> db
      | Some session \<Rightarrow> (Inr session, db))"

definition apply_update :: "ChatSessionUpdate \<Rightarrow> ChatSession \<Rightarrow> ChatSession" where
  "apply_update u session =
     (let s1 = (case su_summary u of None \<Rightarrow> session
                | Some v \<Rightarrow> session\<lparr>cs_summary := Some v\<rparr>);
          s2 = (case su_total_messages u of None \<Rightarrow> s1
                | Some v \<Rightarrow> s1\<lparr>cs_total_messages := v\<rparr>);
          s3 = (case su_session_metadata u of None \<Rightarrow> s2
                | Some v \<Rightarrow> s2\<lparr>cs_session_metadata := Some v\<rparr>)
      in s3)"

definition update_session ::
  "env \<Rightarrow> string \<Rightarrow> ChatSessionUpdate \<Rightarrow> database \<Rightarrow> (error + ChatSession) \<times> database" where
  "update_session e sid update_data db =
     (case get_session sid db of
        None \<Rightarrow> (Inl (ValueError (''Session '' @ sid @ '' not found'')), db)
      | Some session \<Rightarrow>
          let session' = (apply_update update_data session)\<lparr>cs_last_activity := client_now e\<rparr>
          in (case commit e [UpdateSession session'] db of
                Inl err \<Rightarrow> (Inl err, db)
              | Inr db' \<Rightarrow> (refresh_session (cs_id session') db', db')))"

text \<open>
  \<open>add_message\<close> stages the new message and the modified session object, then commits
  once. The session object is passed by reference and updated in place: the refreshed
  object is returned next to the created message.
\<close>

definition LongTermMemory_add_message ::
  "env \<Rightarrow> ChatMessageCreate \<Rightarrow> ChatSession \<Rightarrow> database
     \<Rightarrow> (error + ChatMessage \<times> ChatSession) \<times> database" where
  "LongTermMemory_add_message e message_data session db =
     (let session' = session\<lparr>cs_total_messages := cs_total_messages session + 1,
                              cs_last_activity := client_now e\<rparr>
      in (case commit e [InsertMessage message_data, UpdateSession session'] db of
            Inl err \<Rightarrow> (Inl err, db)
          | Inr db' \<Rightarrow>
              (case refresh_message (next_message_id db) db' of
                 Inl err \<Rightarrow> Inl err
               | Inr message \<Rightarrow>
                   (case refresh_session (cs_id session') db' of
                      Inl err \<Rightarrow> Inl err
                    | Inr refreshed \<Rightarrow> Inr (message, refreshed)),
               db')))"

text \<open>
  \<open>ORDER BY timestamp\<close> is answered by the database. SQL fixes the answer only up to
  the order of rows with equal timestamps, so the two orderings the store uses are
  parameters, and \<open>answers_asc\<close> / \<open>answers_desc\<close> say that an answer is a
  correct one for the rows it was asked about.
\<close>

record query_engine =
  order_by_timestamp :: "ChatMessage list \<Rightarrow> ChatMessage list"
  order_by_timestamp_desc :: "ChatMessage list \<Rightarrow> ChatMessage list"

definition chronological :: "ChatMessage list \<Rightarrow> bool" where
  "chronological ms = sorted (map cm_timestamp ms)"

definition answers_asc :: "query_engine \<Rightarrow> ChatMessage list \<Rightarrow> bool" where
  "answers_asc q rows =
     (mset (order_by_timestamp q rows) = mset rows \<and> chronological (order_by_timestamp q rows))"

definition answers_desc :: "query_engine \<Rightarrow> ChatMessage list \<Rightarrow> bool" where
  "answers_desc q rows =
     (mset (order_by_timestamp_desc q rows) = mset rows \<and>
      chronological (rev (order_by_timestamp_desc q rows)))"

definition session_rows :: "string \<Rightarrow> database \<Rightarrow> ChatMessage list" where
  "session_rows sid db = filter (\<lambda>m. cm_session_id m = sid) (chat_messages db)"

text \<open>
  \<open>OFFSET\<close> and \<open>LIMIT\<close>: PostgreSQL rejects a negative count.
\<close>

definition sql_offset :: "int \<Rightarrow> 'a list \<Rightarrow> error + 'a list" where
  "sql_offset n rows =
     (if n < 0 then Inl (DatabaseError ''OFFSET must not be negative'')
      else Inr (drop (nat n) rows))"

definition sql_limit :: "int \<Rightarrow> 'a list \<Rightarrow> error + 'a list" where
  "sql_limit n rows =
     (if n < 0 then Inl (DatabaseError ''LIMIT must not be negative'')
      else Inr (take (nat n) rows))"

definition get_messages ::
  "query_engine \<Rightarrow> string \<Rightarrow> int option \<Rightarrow> int \<Rightarrow> database \<Rightarrow> error + ChatMessage list" where
  "get_messages q sid limit offset db =
     (let query = order_by_timestamp q (session_rows sid db)
      in (case (if offset \<noteq> 0 then sql_offset offset query else Inr query) of
            Inl err \<Rightarrow> Inl err
          | Inr query' \<Rightarrow>
              if py_truthy limit then sql_limit (the limit) query' else Inr query'))"

definition LongTermMemory_get_recent_messages ::
  "query_engine \<Rightarrow> string \<Rightarrow> int \<Rightarrow> database \<Rightarrow> error + ChatMessage list" where
  "LongTermMemory_get_recent_messages q sid limit db =
     (case sql_limit limit (order_by_timestamp_desc q (session_rows sid db)) of
        Inl err \<Rightarrow> Inl err
      | Inr msgs \<Rightarrow> Inr (rev msgs))"

definition get_message_count :: "string \<Rightarrow> database \<Rightarrow> int" where
  "get_message_count sid db = int (length (session_rows sid db))"

section \<open>Unified memory manager (memory/memory\_manager.py)\<close>

text \<open>
  The semantic tier is a FAISS index behind an embedding service. It is kept as the list
  of the documents it holds: the text of a snippet and the metadata the manager attaches.
  Embedding a document is an external call that may raise.
\<close>

record snippet =
  sn_text :: string
  sn_session_id :: string
  sn_message_count :: int
  sn_total_messages :: int

type_synonym SemanticMemory = "snippet list"

text \<open>The external collaborators of a manager call.\<close>

record collaborators =
  invoke_llm :: llm
  encode :: tokenizer
  embedding_succeeds :: bool

definition add_conversation_snippet ::
  "collaborators \<Rightarrow> snippet \<Rightarrow> SemanticMemory \<Rightarrow> error + SemanticMemory" where
  "add_conversation_snippet c doc store =
     (if py_strip (sn_text doc) = [] then Inr store
      else if embedding_succeeds c then Inr (store @ [doc])
      else Inl (ExternalError ''embedding request failed''))"

record UnifiedMemoryManager =
  um_session_id :: string
  um_pdf_ids :: "int list"
  um_user_id :: "string option"
  short_term :: ShortTermMemory
  semantic :: SemanticMemory
  session :: ChatSession

definition initialize_short_term_from_db ::
  "settings \<Rightarrow> query_engine \<Rightarrow> string \<Rightarrow> ShortTermMemory \<Rightarrow> database
     \<Rightarrow> error + ShortTermMemory" where
  "initialize_short_term_from_db st q sid stm db =
     (case LongTermMemory_get_recent_messages q sid (memory_buffer_messages st) db of
        Inl err \<Rightarrow> Inl err
      | Inr recent_messages \<Rightarrow>
          let messages_to_load =
                map (\<lambda>msg. \<lparr>role = cm_role msg, content = cm_content msg\<rparr>) recent_messages
          in if messages_to_load \<noteq> []
             then (case load_messages_batch messages_to_load stm of
                     (Some err, stm') \<Rightarrow> Inl err
                   | (None, stm') \<Rightarrow> Inr stm')
             else Inr stm)"

text \<open>
  The constructor. \<open>stored\<close> is the vector store found on disk for the session, empty
  when there is none.
\<close>

definition UnifiedMemoryManager_init ::
  "settings \<Rightarrow> query_engine \<Rightarrow> env \<Rightarrow> SemanticMemory \<Rightarrow> string \<Rightarrow> int list \<Rightarrow> string option
     \<Rightarrow> database \<Rightarrow> (error + UnifiedMemoryManager) \<times> database" where
  "UnifiedMemoryManager_init st q e stored sid pdf_ids user_id db =
     (case get_or_create_session e sid pdf_ids user_id db of
        (Inl err, db') \<Rightarrow> (Inl err, db')
      | (Inr s, db') \<Rightarrow>
          (case initialize_short_term_from_db st q sid
                  (ShortTermMemory_init st None None None) db' of
             Inl err \<Rightarrow> (Inl err, db')
           | Inr stm \<Rightarrow>
               (Inr \<lparr> um_session_id = sid, um_pdf_ids = pdf_ids, um_user_id = user_id,
                       short_term = stm, semantic = stored, session = s \<rparr>, db')))"

text \<open>
  The test of \<open>_check_and_update_summary\<close>:
  \<open>total_messages >= trigger and total_messages % trigger == 0\<close>. The second operand
  is evaluated only when the first holds, and it raises for a trigger of zero.
\<close>

definition summary_due :: "settings \<Rightarrow> int \<Rightarrow> error + bool" where
  "summary_due st total_messages =
     (if total_messages \<ge> memory_summary_trigger st
      then (if memory_summary_trigger st = 0 then Inl ZeroDivisionError
            else Inr (total_messages mod memory_summary_trigger st = 0))
      else Inr False)"

text \<open>
  \<open>_check_and_update_summary\<close> returns nothing; the model returns, next to the new
  state, whether \<open>get_conversation_summary\<close> was called.
\<close>

definition check_and_update_summary ::
  "settings \<Rightarrow> collaborators \<Rightarrow> env \<Rightarrow> UnifiedMemoryManager \<Rightarrow> database
     \<Rightarrow> (error + bool) \<times> UnifiedMemoryManager \<times> database" where
  "check_and_update_summary st c e m db =
     (case summary_due st (cs_total_messages (session m)) of
        Inl err \<Rightarrow> (Inl err, m, db)
      | Inr False \<Rightarrow> (Inr False, m, db)
      | Inr True \<Rightarrow>
          (case get_conversation_summary (invoke_llm c) (encode c) (short_term m) of
             Inl err \<Rightarrow> (Inl err, m, db)
           | Inr summary \<Rightarrow>
               if summary \<noteq> []
               then (case update_session e (um_session_id m)
                            \<lparr>su_summary = Some summary, su_total_messages = None,
                              su_session_metadata = None\<rparr> db of
                       (Inl err, db') \<Rightarrow> (Inl err, m, db')
                     | (Inr updated_session, db') \<Rightarrow>
                         (Inr True, m\<lparr>session := updated_session\<rparr>, db'))
               else (Inr True, m, db)))"

definition add_to_semantic_memory ::
  "collaborators \<Rightarrow> UnifiedMemoryManager \<Rightarrow> error + UnifiedMemoryManager" where
  "add_to_semantic_memory c m =
     (let recent_messages = ShortTermMemory_get_recent_messages (Some 4) (short_term m)
      in if length recent_messages \<ge> 2
         then (case add_conversation_snippet c
                      \<lparr> sn_text = py_join ''\<newline>''
                                    (map (\<lambda>msg. role msg @ '': '' @ content msg) recent_messages),
                        sn_session_id = um_session_id m,
                        sn_message_count = int (length recent_messages),
                        sn_total_messages = cs_total_messages (session m) \<rparr>
                      (semantic m) of
                 Inl err \<Rightarrow> Inl err
               | Inr store \<Rightarrow> Inr (m\<lparr>semantic := store\<rparr>))
         else Inr m)"

text \<open>
  \<open>add_user_message\<close> and \<open>add_assistant_message\<close>. \<open>e\<close> is read by the commit of
  \<open>add_message\<close>, \<open>e'\<close> by the commit of the summary update. The result is the
  created message and whether the summary was requested.
\<close>

definition add_user_message ::
  "settings \<Rightarrow> collaborators \<Rightarrow> env \<Rightarrow> env \<Rightarrow> string \<Rightarrow> UnifiedMemoryManager \<Rightarrow> database
     \<Rightarrow> (error + ChatMessage \<times> bool) \<times> UnifiedMemoryManager \<times> database" where
  "add_user_message st c e e' text m db =
     (case ShortTermMemory_add_message ''user'' text (short_term m) of
        Inl err \<Rightarrow> (Inl err, m, db)
      | Inr stm \<Rightarrow>
          (case LongTermMemory_add_message e
                  \<lparr>mc_session_id = um_session_id m, mc_role = ''user'', mc_content = text,
                    mc_sources = None, mc_token_count = None\<rparr>
                  (session m) db of
             (Inl err, db1) \<Rightarrow> (Inl err, m\<lparr>short_term := stm\<rparr>, db1)
           | (Inr (message, s), db1) \<Rightarrow>
               (case check_and_update_summary st c e' (m\<lparr>short_term := stm, session := s\<rparr>) db1 of
                  (Inl err, m2, db2) \<Rightarrow> (Inl err, m2, db2)
                | (Inr requested, m2, db2) \<Rightarrow> (Inr (message, requested), m2, db2))))"

definition add_assistant_message ::
  "settings \<Rightarrow> collaborators \<Rightarrow> env \<Rightarrow> env \<Rightarrow> string \<Rightarrow> json list option
     \<Rightarrow> UnifiedMemoryManager \<Rightarrow> database
     \<Rightarrow> (error + ChatMessage \<times> bool) \<times> UnifiedMemoryManager \<times> database" where
  "add_assistant_message st c e e' text sources m db =
     (case ShortTermMemory_add_message ''assistant'' text (short_term m) of
        Inl err \<Rightarrow> (Inl err, m, db)
      | Inr stm \<Rightarrow>
          (case LongTermMemory_add_message e
                  \<lparr>mc_session_id = um_session_id m, mc_role = ''assistant'', mc_content = text,
                    mc_sources = sources, mc_token_count = None\<rparr>
                  (session m) db of
             (Inl err, db1) \<Rightarrow> (Inl err, m\<lparr>short_term := stm\<rparr>, db1)
           | (Inr (message, s), db1) \<Rightarrow>
               (case (if cs_total_messages s mod 4 = 0
                      then add_to_semantic_memory c (m\<lparr>short_term := stm, session := s\<rparr>)
                      else Inr (m\<lparr>short_term := stm, session := s\<rparr>)) of
                  Inl err \<Rightarrow> (Inl err, m\<lparr>short_term := stm, session := s\<rparr>, db1)
                | Inr m1 \<Rightarrow>
                    (case check_and_update_summary st c e' m1 db1 of
                       (Inl err, m2, db2) \<Rightarrow> (Inl err, m2, db2)
                     | (Inr requested, m2, db2) \<Rightarrow> (Inr (message, requested), m2, db2)))))"

section \<open>Query reformulator (chat\_assistant/query\_reformulator.py)\<close>

text \<open>
  The system prompt is the literal of the source. Its arrow character is not in the
  character type of this model; it is written as the three bytes of its UTF-8 encoding.
  The prompt is only passed to the LLM.
\<close>

definition arrow :: string where
  "arrow = [CHR 0xE2, CHR 0x86, CHR 0x92]"

definition build_system_prompt :: string where
  \<open>build_system_prompt =
     ''You are a query reformulation assistant for a tender document analysis system.\<newline>''
     @ ''\<newline>''
     @ ''Your task is to reformulate user queries by incorporating relevant context from the conversation history.\<newline>''
     @ ''\<newline>''
     @ ''Guidelines:\<newline>''
     @ ''1. **Preserve all specific references**: If the query mentions page numbers, sections, clauses, items, or other specific references, keep them EXACTLY as stated\<newline>''
     @ ''   - Example: "What page is that on?" '' @ arrow @ '' "What page contains the contractor qualification requirements?"\<newline>''
     @ ''\<newline>''
     @ ''2. **Resolve pronouns and relative references**: Replace "it", "that", "this", "those", "these" with the actual subject from conversation history\<newline>''
     @ ''   - Example: "Tell me more about it" '' @ arrow @ '' "Tell me more about the safety compliance requirements"\<newline>''
     @ ''\<newline>''
     @ ''3. **Add context for vague follow-ups**: Enhance queries that depend on previous discussion\<newline>''
     @ ''   - Example: "Is there a requirement for that?" '' @ arrow @ '' "Is there a requirement for ISO 9001 certification mentioned in section 2.3?"\<newline>''
     @ ''\<newline>''
     @ ''4. **Keep standalone queries as-is**: If the query is already complete and self-contained, return it unchanged\<newline>''
     @ ''   - Example: "What are the technical specifications in section 3.2?" '' @ arrow @ '' (keep as-is)\<newline>''
     @ ''\<newline>''
     @ ''5. **Don't lose information**: Never remove or simplify specific details, numbers, or technical terms from the original query\<newline>''
     @ ''\<newline>''
     @ ''6. Keep the reformulated query concise (1-3 sentences max)\<newline>''
     @ ''\<newline>''
     @ ''Output ONLY the reformulated query, no explanations or metadata.''\<close>

text \<open>\<open>if conversation_summary:\<close> on an optional string.\<close>

definition str_truthy :: "string option \<Rightarrow> bool" where
  "str_truthy x = (case x of None \<Rightarrow> False | Some v \<Rightarrow> v \<noteq> [])"

definition build_user_prompt :: "string \<Rightarrow> ChatMessage list \<Rightarrow> string option \<Rightarrow> string" where
  "build_user_prompt original_query recent_messages conversation_summary =
     py_join ''\<newline>''
       ((if str_truthy conversation_summary
         then [''Conversation Summary:\<newline>'' @ the conversation_summary @ ''\<newline>'']
         else [])
        @ (if recent_messages \<noteq> []
           then [''Recent Conversation:'']
                @ map (\<lambda>msg. cm_role msg @ '': '' @ cm_content msg)
                    (py_slice_last 5 recent_messages)
                @ [[]]
           else [])
        @ [''User's New Query:\<newline>'' @ original_query @ ''\<newline>'']
        @ [''Reformulated Query:''])"

definition reformulate_query ::
  "llm \<Rightarrow> string \<Rightarrow> ChatMessage list \<Rightarrow> string option \<Rightarrow> error + string" where
  "reformulate_query invoke original_query recent_messages conversation_summary =
     (if recent_messages = [] \<and> \<not> str_truthy conversation_summary then Inr original_query
      else try_except
             (case invoke [SystemMessage build_system_prompt,
                           HumanMessage (build_user_prompt original_query recent_messages
                                           conversation_summary)] of
                Inl e \<Rightarrow> Inl e
              | Inr response \<Rightarrow>
                  let reformulated = py_strip response
                  in if reformulated = [] \<or> length reformulated < 10 then Inr original_query
                     else Inr reformulated)
             (\<lambda>e. Inr original_query))"

section \<open>Chat assistant service: the manager cache (chat\_assistant/service.py)\<close>

text \<open>\<open>str\<close> of an integer and of a tuple of integers, as an f-string formats them.\<close>

definition digit_char :: "nat \<Rightarrow> char" where
  "digit_char d = char_of (48 + d)"

fun str_nat :: "nat \<Rightarrow> string" where
  "str_nat n = (if n < 10 then [digit_char n] else str_nat (n div 10) @ [digit_char (n mod 10)])"

definition str_int :: "int \<Rightarrow> string" where
  "str_int i = (if i < 0 then ''-'' @ str_nat (nat (- i)) else str_nat (nat i))"

definition str_tuple :: "int list \<Rightarrow> string" where
  "str_tuple xs =
     (case xs of
        [] \<Rightarrow> ''()''
      | [x] \<Rightarrow> ''('' @ str_int x @ '',)''
      | _ \<Rightarrow> ''('' @ py_join '', '' (map str_int xs) @ '')'')"

text \<open>
  A Python dictionary keeps its keys in insertion order; assigning to a key that is
  present keeps the key's position.
\<close>

fun dict_set :: "'k \<Rightarrow> 'v \<Rightarrow> ('k \<times> 'v) list \<Rightarrow> ('k \<times> 'v) list" where
  "dict_set k v [] = [(k, v)]"
| "dict_set k v ((k', v') # d) = (if k' = k then (k, v) # d else (k', v') # dict_set k v d)"

definition dict_del :: "'k \<Rightarrow> ('k \<times> 'v) list \<Rightarrow> ('k \<times> 'v) list" where
  "dict_del k d = filter (\<lambda>kv. fst kv \<noteq> k) d"

text \<open>
  Managers are objects: the cache holds references, and \<open>managers\<close> is the store of the
  objects created so far, a new object taking the next reference.
\<close>

record ChatAssistantService =
  memory_manager_cache :: "(string \<times> nat) list"
  max_cache_size :: int
  managers :: "(nat \<times> UnifiedMemoryManager) list"

definition ChatAssistantService_init :: ChatAssistantService where
  "ChatAssistantService_init =
     \<lparr> memory_manager_cache = [], max_cache_size = 50, managers = [] \<rparr>"

definition cache_key :: "string \<Rightarrow> int list \<Rightarrow> string" where
  "cache_key sid pdf_ids = sid @ '':'' @ str_tuple (sort pdf_ids)"

text \<open>The eviction step: the first key of the dictionary is deleted.\<close>

definition evict_oldest :: "ChatAssistantService \<Rightarrow> ChatAssistantService" where
  "evict_oldest svc =
     (if int (length (memory_manager_cache svc)) > max_cache_size svc
      then (case memory_manager_cache svc of
              [] \<Rightarrow> svc
            | (first_key, _) # _ \<Rightarrow>
                svc\<lparr>memory_manager_cache := dict_del first_key (memory_manager_cache svc)\<rparr>)
      else svc)"

definition get_or_create_memory_manager ::
  "settings \<Rightarrow> query_engine \<Rightarrow> env \<Rightarrow> SemanticMemory \<Rightarrow> string \<Rightarrow> int list \<Rightarrow> string option
     \<Rightarrow> ChatAssistantService \<Rightarrow> database
     \<Rightarrow> (error + nat) \<times> ChatAssistantService \<times> database" where
  "get_or_create_memory_manager st q e stored sid pdf_ids user_id svc db =
     (case map_of (memory_manager_cache svc) (cache_key sid pdf_ids) of
        Some cached \<Rightarrow> (Inr cached, svc, db)
      | None \<Rightarrow>
          (case UnifiedMemoryManager_init st q e stored sid pdf_ids user_id db of
             (Inl err, db') \<Rightarrow> (Inl err, svc, db')
           | (Inr memory_manager, db') \<Rightarrow>
               let new = length (managers svc)
               in (Inr new,
                   evict_oldest
                     (svc\<lparr>managers := managers svc @ [(new, memory_manager)],
                          memory_manager_cache :=
                            dict_set sid new (memory_manager_cache svc)\<rparr>),
                   db')))"

section \<open>Integrity conditions and call sequences\<close>

text \<open>
  Two constraints of the schema, as conditions on the tables: the primary-key sequence
  of \<open>chat_sessions\<close> is ahead of every key in use, and every message references an
  existing session (the foreign key of \<open>chat_messages.session_id\<close>).
\<close>

definition session_ids_fresh :: "database \<Rightarrow> bool" where
  "session_ids_fresh db = list_all (\<lambda>r. cs_id r < next_session_id db) (chat_sessions db)"

definition foreign_keys_hold :: "database \<Rightarrow> bool" where
  "foreign_keys_hold db =
     list_all (\<lambda>m. list_ex (\<lambda>r. cs_session_id r = cm_session_id m) (chat_sessions db))
       (chat_messages db)"

text \<open>
  A sequence of \<open>add_message\<close> calls on one session object, each with what it reads
  from outside; the object updated by a call is the one passed to the next, and the
  sequence stops at the first exception.
\<close>

fun add_message_calls ::
  "(env \<times> ChatMessageCreate) list \<Rightarrow> ChatSession \<Rightarrow> database
     \<Rightarrow> (error + ChatSession) \<times> database" where
  "add_message_calls [] s db = (Inr s, db)"
| "add_message_calls ((e, message_data) # calls) s db =
     (case LongTermMemory_add_message e message_data s db of
        (Inl err, db') \<Rightarrow> (Inl err, db')
      | (Inr (message, s'), db') \<Rightarrow> add_message_calls calls s' db')"

section \<open>Example values\<close>

text \<open>
  A database engine that sorts stably on the insertion order of the table, in both
  directions.
\<close>

definition stable_engine :: query_engine where
  "stable_engine =
     \<lparr> order_by_timestamp = sort_key cm_timestamp,
       order_by_timestamp_desc = sort_key (\<lambda>m. - cm_timestamp m) \<rparr>"

definition empty_database :: database where
  "empty_database =
     \<lparr> chat_sessions = [], chat_messages = [], next_session_id = 1, next_message_id = 1 \<rparr>"

text \<open>A call environment whose commit succeeds, with both clocks at \<open>t\<close>.\<close>

definition env_at :: "datetime \<Rightarrow> env" where
  "env_at t = \<lparr> commit_succeeds = True, server_now = t, client_now = t \<rparr>"

definition user_message :: "string \<Rightarrow> string \<Rightarrow> ChatMessageCreate" where
  "user_message sid text =
     \<lparr> mc_session_id = sid, mc_role = ''user'', mc_content = text,
       mc_sources = None, mc_token_count = None \<rparr>"

text \<open>
  Session \<open>s1\<close> with two messages that were committed at the same reading of the
  server clock.
\<close>

definition session_s1 :: ChatSession where
  "session_s1 =
     \<lparr> cs_id = 1, cs_session_id = ''s1'', cs_pdf_ids = [1], cs_user_id = None,
       cs_created_at = 1, cs_last_activity = 5, cs_summary = None,
       cs_total_messages = 2, cs_session_metadata = None \<rparr>"

definition message_a :: ChatMessage where
  "message_a =
     \<lparr> cm_id = 1, cm_session_id = ''s1'', cm_role = ''user'', cm_content = ''a'',
       cm_timestamp = 5, cm_sources = None, cm_token_count = None \<rparr>"

definition message_b :: ChatMessage where
  "message_b =
     \<lparr> cm_id = 2, cm_session_id = ''s1'', cm_role = ''user'', cm_content = ''b'',
       cm_timestamp = 5, cm_sources = None, cm_token_count = None \<rparr>"

definition tied_database :: database where
  "tied_database =
     \<lparr> chat_sessions = [session_s1], chat_messages = [message_a, message_b],
       next_session_id = 2, next_message_id = 3 \<rparr>"

text \<open>The same session when the second message was committed one tick later.\<close>

definition message_c :: ChatMessage where
  "message_c = message_b\<lparr>cm_timestamp := 6\<rparr>"

definition ordered_database :: database where
  "ordered_database = tied_database\<lparr>chat_messages := [message_a, message_c]\<rparr>"

text \<open>
  A manager of session \<open>s1\<close> over \<open>tied_database\<close> with three buffered messages, and
  settings under which the third persisted message triggers the summary: the trigger is
  3 and one token is enough. The tokenizer of the example makes one token of every
  character; the chat model answers with a fixed text.
\<close>

definition settings_t3 :: settings where
  "settings_t3 = default_settings\<lparr>memory_summary_trigger := 3, memory_max_tokens := 1\<rparr>"

definition manager_s1 :: UnifiedMemoryManager where
  "manager_s1 =
     \<lparr> um_session_id = ''s1'', um_pdf_ids = [1], um_user_id = None,
       short_term =
         (ShortTermMemory_init settings_t3 None None None)
           \<lparr>messages := [HumanMessage ''a'', HumanMessage ''b'', AIMessage ''c'']\<rparr>,
       semantic = [],
       session = session_s1 \<rparr>"

definition example_collaborators :: collaborators where
  "example_collaborators =
     \<lparr> invoke_llm = (\<lambda>request. Inr ''  A summary.  ''),
       encode = (\<lambda>text. Inr (map of_char text)),
       embedding_succeeds = True \<rparr>"

text \<open>
  The default encoding call of tiktoken raises \<open>ValueError\<close> when the text contains one
  of the special tokens of the encoding. \<open>special_token_tokenizer\<close> does that for the
  special tokens of \<open>cl100k_base\<close> and makes one token of every character otherwise.
\<close>

fun contains :: "string \<Rightarrow> string \<Rightarrow> bool" where
  "contains sub [] = (sub = [])"
| "contains sub (c # cs) = (take (length sub) (c # cs) = sub \<or> contains sub cs)"

definition special_tokens :: "string list" where
  "special_tokens =
     [''<|endoftext|>'', ''<|fim_prefix|>'', ''<|fim_middle|>'', ''<|fim_suffix|>'',
      ''<|endofprompt|>'']"

definition special_token_tokenizer :: tokenizer where
  "special_token_tokenizer text =
     (if list_ex (\<lambda>t. contains t text) special_tokens
      then Inl (ValueError ''Encountered text corresponding to disallowed special token'')
      else Inr (map of_char text))"

text \<open>
  A chat model that answers with the text of the human message of a request made of a
  system message and a human message, and a buffer of four messages, the second of
  which is the text of a special token; \<open>plain_buffer\<close> is the same conversation
  without it.
\<close>

definition echo_llm :: llm where
  "echo_llm request =
     (case request of
        [SystemMessage p, HumanMessage t] \<Rightarrow> Inr (''  '' @ t @ ''\<newline>'')
      | _ \<Rightarrow> Inl (ExternalError ''unexpected request''))"

definition special_token_buffer :: ShortTermMemory where
  "special_token_buffer =
     (ShortTermMemory_init settings_t3 None None None)
       \<lparr>messages := [HumanMessage ''hello'', AIMessage ''<|endoftext|>'',
                     HumanMessage ''and then?'', AIMessage ''done'']\<rparr>"

definition plain_buffer :: ShortTermMemory where
  "plain_buffer =
     (ShortTermMemory_init settings_t3 None None None)
       \<lparr>messages := [HumanMessage ''hello'', AIMessage ''hi'',
                     HumanMessage ''and then?'', AIMessage ''done'']\<rparr>"

text \<open>A buffer with a keep size of 1 that holds two messages: it is at its bound.\<close>

definition full_buffer :: ShortTermMemory where
  "full_buffer =
     (ShortTermMemory_init default_settings None (Some 1) None)
       \<lparr>messages := [HumanMessage ''a'', AIMessage ''b'']\<rparr>"

text \<open>
  Two calls of the service for the same session and the same document ids, the second
  on the state the first left.
\<close>

definition first_call :: "(error + nat) \<times> ChatAssistantService \<times> database" where
  "first_call =
     get_or_create_memory_manager default_settings stable_engine (env_at 1) [] ''s1'' [1] None
       ChatAssistantService_init empty_database"

definition second_call :: "(error + nat) \<times> ChatAssistantService \<times> database" where
  "second_call =
     get_or_create_memory_manager default_settings stable_engine (env_at 2) [] ''s1'' [1] None
       (fst (snd first_call)) (snd (snd first_call))"

section \<open>Properties of the rolling buffer\<close>

lemma trim_buffer_keep [simp]: "messages_to_keep (trim_buffer s) = messages_to_keep s"
  by (simp add: trim_buffer_def)

lemma add_message_Inr:
  "ShortTermMemory_add_message r c s = Inr s' \<longleftrightarrow>
     valid_role \<lparr>role = r, content = c\<rparr> \<and>
     s' = trim_buffer (s\<lparr>messages := messages s @ [to_lc_message \<lparr>role = r, content = c\<rparr>]\<rparr>)"
  by (auto simp: ShortTermMemory_add_message_def valid_role_def to_lc_message_def)

lemma add_messages_snoc:
  "add_messages (cs @ [c]) s =
     (case add_messages cs s of Inl e \<Rightarrow> Inl e
      | Inr s' \<Rightarrow> ShortTermMemory_add_message (role c) (content c) s')"
  by (induction cs arbitrary: s) (auto split: sum.splits)

lemma trim_length:
  assumes "0 < messages_to_keep s"
    and "int (length (messages s)) \<le> 2 * messages_to_keep s + 1"
  shows "int (length (messages (trim_buffer s))) \<le> 2 * messages_to_keep s"
  using assms by (auto simp: trim_buffer_def py_slice_last_def)

lemma trim_suffix: "\<exists>ys. messages s = ys @ messages (trim_buffer s)"
proof -
  have "\<And>n xs. \<exists>ys. (xs::lc_message list) = ys @ drop n xs"
    by (metis append_take_drop_id)
  then show ?thesis by (simp add: trim_buffer_def py_slice_last_def)
qed

lemma add_message_step:
  assumes k: "0 < messages_to_keep s"
    and b: "buffer_bounded s"
    and a: "ShortTermMemory_add_message r c s = Inr s'"
  shows "buffer_bounded s'" "messages_to_keep s' = messages_to_keep s"
  using assms
    trim_length[of "s\<lparr>messages := messages s @ [to_lc_message \<lparr>role = r, content = c\<rparr>]\<rparr>"]
  by (auto simp: add_message_Inr buffer_bounded_def)

lemma add_messages_inv:
  assumes "0 < messages_to_keep s0" "buffer_bounded s0" "add_messages cs s0 = Inr s1"
  shows "buffer_bounded s1 \<and> messages_to_keep s1 = messages_to_keep s0
    \<and> (\<exists>ys. messages s0 @ map to_lc_message cs = ys @ messages s1)"
  using assms
proof (induction cs arbitrary: s1 rule: rev_induct)
  case Nil
  then show ?case by simp
next
  case (snoc c cs)
  from snoc.prems(3) obtain s' where s': "add_messages cs s0 = Inr s'"
    and a: "ShortTermMemory_add_message (role c) (content c) s' = Inr s1"
    by (auto simp: add_messages_snoc split: sum.splits)
  from snoc.IH[OF snoc.prems(1,2) s'] obtain ys where
    i: "buffer_bounded s'" "messages_to_keep s' = messages_to_keep s0"
       "messages s0 @ map to_lc_message cs = ys @ messages s'" by blast
  have b: "buffer_bounded s1" "messages_to_keep s1 = messages_to_keep s0"
    using add_message_step[OF _ i(1) a] snoc.prems(1) i(2) by auto
  from a have s1: "s1 = trim_buffer (s'\<lparr>messages := messages s' @ [to_lc_message c]\<rparr>)"
    by (simp add: add_message_Inr to_lc_message_def)
  obtain zs where "messages s' @ [to_lc_message c] = zs @ messages s1"
    using trim_suffix[of "s'\<lparr>messages := messages s' @ [to_lc_message c]\<rparr>"] s1 by auto
  then have "messages s0 @ map to_lc_message (cs @ [c]) = (ys @ zs) @ messages s1"
    using i(3) by (metis append_assoc map_append list.simps(8,9))
  then show ?case using b by blast
qed

text \<open>
  Claim C3. Start from an empty buffer with \<open>messages_to_keep = k\<close>, \<open>k\<close> a positive
  keep size, and let the calls \<open>cs\<close> and then the call \<open>c\<close> of \<open>add_message\<close> all
  succeed. After the call the buffer holds at most \<open>2k\<close> messages. If the call triggers
  the truncation (the buffer with the appended message is longer than \<open>2k\<close>), the buffer
  holds exactly \<open>k\<close> messages: the last \<open>k\<close> of all the messages added, in order.
\<close>

theorem buffer_cap:
  assumes k: "0 < k" and keep: "messages_to_keep s0 = k" and empty: "messages s0 = []"
    and run: "add_messages cs s0 = Inr s1"
    and call: "ShortTermMemory_add_message (role c) (content c) s1 = Inr s2"
  shows "int (length (messages s2)) \<le> 2 * k \<and>
         (2 * k < int (length (messages s1 @ [to_lc_message c])) \<longrightarrow>
            int (length (messages s2)) = k \<and>
            messages s2 = drop (length (cs @ [c]) - nat k) (map to_lc_message (cs @ [c])))"
proof -
  have b0: "buffer_bounded s0" using k keep empty by (simp add: buffer_bounded_def)
  from add_messages_inv[OF _ b0 run] k keep empty obtain ys where
    i: "buffer_bounded s1" "messages_to_keep s1 = k" "map to_lc_message cs = ys @ messages s1"
    by auto
  have b2: "buffer_bounded s2" "messages_to_keep s2 = k"
    using add_message_step[OF _ i(1) call] k i(2) by auto
  let ?xs = "messages s1 @ [to_lc_message c]"
  from call have s2: "s2 = trim_buffer (s1\<lparr>messages := ?xs\<rparr>)"
    by (simp add: add_message_Inr to_lc_message_def)
  have all: "map to_lc_message (cs @ [c]) = ys @ ?xs" using i(3) by simp
  {
    assume t: "2 * k < int (length ?xs)"
    then have m2: "messages s2 = drop (length ?xs - nat k) ?xs"
      using s2 i(2) k by (simp add: trim_buffer_def py_slice_last_def)
    have le: "nat k \<le> length ?xs" using t k by linarith
    have len: "int (length (messages s2)) = k" using m2 le k by simp
    have "length (cs @ [c]) = length ys + length ?xs"
      using arg_cong[OF all, of length] by simp
    then have "drop (length (cs @ [c]) - nat k) (ys @ ?xs) = drop (length ?xs - nat k) ?xs"
      using le by simp
    then have "messages s2 = drop (length (cs @ [c]) - nat k) (map to_lc_message (cs @ [c]))"
      using m2 all by simp
    note len this
  }
  then show ?thesis using b2 by (auto simp: buffer_bounded_def)
qed

theorem buffer_cap_witness:
  "(0::int) < 1
   \<and> messages_to_keep (ShortTermMemory_init default_settings None (Some 1) None) = 1
   \<and> messages (ShortTermMemory_init default_settings None (Some 1) None) = []
   \<and> add_messages [\<lparr>role = ''user'', content = ''a''\<rparr>, \<lparr>role = ''assistant'', content = ''b''\<rparr>]
        (ShortTermMemory_init default_settings None (Some 1) None)
      = Inr \<lparr>max_tokens_before_summary = 2000, messages_to_keep = 1,
              stm_llm_model = ''google/gemini-flash-1.5'',
              messages = [HumanMessage ''a'', AIMessage ''b'']\<rparr>
   \<and> ShortTermMemory_add_message ''user'' ''c''
        \<lparr>max_tokens_before_summary = 2000, messages_to_keep = 1,
          stm_llm_model = ''google/gemini-flash-1.5'',
          messages = [HumanMessage ''a'', AIMessage ''b'']\<rparr>
      = Inr \<lparr>max_tokens_before_summary = 2000, messages_to_keep = 1,
              stm_llm_model = ''google/gemini-flash-1.5'',
              messages = [HumanMessage ''c'']\<rparr>
   \<and> 2 * 1 < int (length ([HumanMessage ''a'', AIMessage ''b''] @ [to_lc_message \<lparr>role = ''user'', content = ''c''\<rparr>]))
   \<and> [HumanMessage ''c''] = drop (length ([\<lparr>role = ''user'', content = ''a''\<rparr>, \<lparr>role = ''assistant'', content = ''b''\<rparr>] @ [\<lparr>role = ''user'', content = ''c''\<rparr>]) - nat 1)
         (map to_lc_message ([\<lparr>role = ''user'', content = ''a''\<rparr>, \<lparr>role = ''assistant'', content = ''b''\<rparr>] @ [\<lparr>role = ''user'', content = ''c''\<rparr>]))"
proof -
  let ?s0 = "ShortTermMemory_init default_settings None (Some 1) None"
  let ?s1 = "\<lparr>max_tokens_before_summary = 2000, messages_to_keep = 1,
              stm_llm_model = ''google/gemini-flash-1.5'',
              messages = [HumanMessage ''a'', AIMessage ''b'']\<rparr>"
  let ?s2 = "\<lparr>max_tokens_before_summary = 2000, messages_to_keep = 1,
              stm_llm_model = ''google/gemini-flash-1.5'',
              messages = [HumanMessage ''c'']\<rparr>"
  let ?cs = "[\<lparr>role = ''user'', content = ''a''\<rparr>, \<lparr>role = ''assistant'', content = ''b''\<rparr>]"
  let ?c = "\<lparr>role = ''user'', content = ''c''\<rparr>"
  have h1: "(0::int) < 1" by simp
  have h2: "messages_to_keep ?s0 = 1"
    by (simp add: ShortTermMemory_init_def py_or_def)
  have h3: "messages ?s0 = []"
    by (simp add: ShortTermMemory_init_def)
  have h4: "add_messages ?cs ?s0 = Inr ?s1"
    by (simp add: ShortTermMemory_init_def py_or_def default_settings_def
        ShortTermMemory_add_message_def trim_buffer_def)
  have h5: "ShortTermMemory_add_message (role ?c) (content ?c) ?s1 = Inr ?s2"
    by (simp add: ShortTermMemory_add_message_def trim_buffer_def py_slice_last_def)
  from buffer_cap[OF h1 h2 h3 h4 h5] h1 h2 h3 h4 h5 show ?thesis
    by (simp add: to_lc_message_def)
qed

section \<open>Properties of the message store\<close>

lemma find_None_list_ex: "find P xs = None \<longleftrightarrow> \<not> list_ex P xs"
  by (induction xs) auto

lemma find_Some_mem: "find P xs = Some x \<Longrightarrow> x \<in> set xs \<and> P x"
  by (induction xs) (auto split: if_splits)

lemma find_append_new: "\<not> list_ex P xs \<Longrightarrow> P x \<Longrightarrow> find P (xs @ [x]) = Some x"
  by (induction xs) auto

lemma find_replace_by_id:
  "list_ex (\<lambda>r. cs_id r = k) xs \<Longrightarrow> cs_id s' = k \<Longrightarrow>
   find (\<lambda>r. cs_id r = k) (map (\<lambda>r. if cs_id r = k then s' else r) xs) = Some s'"
  by (induction xs) auto

lemma find_replace_by_session_id:
  "find (\<lambda>r. cs_session_id r = sid) xs = Some s \<Longrightarrow> cs_session_id s' = sid \<Longrightarrow>
   find (\<lambda>r. cs_session_id r = sid) (map (\<lambda>r. if cs_id r = cs_id s then s' else r) xs) = Some s'"
  by (induction xs) (auto split: if_splits)

lemma get_session_Some:
  assumes "get_session sid db = Some s"
  shows "cs_session_id s = sid"
    and "list_ex (\<lambda>r. cs_session_id r = sid) (chat_sessions db)"
    and "list_ex (\<lambda>r. cs_id r = cs_id s) (chat_sessions db)"
  using find_Some_mem[OF assms[unfolded get_session_def]]
  by (auto simp: list_ex_iff)

lemma create_session_fresh:
  assumes ok: "commit_succeeds e"
    and fresh: "session_ids_fresh db"
    and absent: "get_session (sc_session_id sc) db = None"
  shows "\<exists>s db'. create_session e sc db = (Inr s, db')
      \<and> get_session (sc_session_id sc) db' = Some s
      \<and> cs_session_id s = sc_session_id sc \<and> cs_pdf_ids s = sc_pdf_ids sc
      \<and> cs_user_id s = sc_user_id sc
      \<and> cs_total_messages s = 0 \<and> cs_summary s = None
      \<and> chat_messages db' = chat_messages db"
proof -
  let ?row = "\<lparr> cs_id = next_session_id db, cs_session_id = sc_session_id sc,
                cs_pdf_ids = sc_pdf_ids sc, cs_user_id = sc_user_id sc,
                cs_created_at = server_now e, cs_last_activity = server_now e,
                cs_summary = None, cs_total_messages = 0, cs_session_metadata = None \<rparr>"
  let ?db' = "db\<lparr>chat_sessions := chat_sessions db @ [?row],
                 next_session_id := Suc (next_session_id db)\<rparr>"
  have no: "\<not> list_ex (\<lambda>r. cs_session_id r = sc_session_id sc) (chat_sessions db)"
    using absent by (simp add: get_session_def find_None_list_ex)
  then have c: "commit e [InsertSession sc 0] db = Inr ?db'"
    using ok by (simp add: commit_def)
  have "\<not> list_ex (\<lambda>r. cs_id r = next_session_id db) (chat_sessions db)"
    using fresh by (auto simp: session_ids_fresh_def list_all_iff list_ex_iff)
  then have r: "refresh_session (next_session_id db) ?db' = Inr ?row"
    by (simp add: refresh_session_def find_append_new)
  have g: "get_session (sc_session_id sc) ?db' = Some ?row"
    using no by (simp add: get_session_def find_append_new)
  show ?thesis
    using c r g by (simp add: create_session_def)
qed

lemma add_message_rejected:
  "\<not> commit_succeeds e \<Longrightarrow>
   LongTermMemory_add_message e md s db = (Inl (DatabaseError ''OperationalError''), db)"
  by (simp add: LongTermMemory_add_message_def commit_def)

lemma add_message_success:
  assumes row: "get_session sid db = Some s"
    and md: "mc_session_id md = sid"
    and ok: "commit_succeeds e"
  shows "\<exists>msg s' db'. LongTermMemory_add_message e md s db = (Inr (msg, s'), db')
     \<and> get_session sid db' = Some s'
     \<and> s' = s\<lparr>cs_total_messages := cs_total_messages s + 1, cs_last_activity := client_now e\<rparr>
     \<and> get_message_count sid db' = get_message_count sid db + 1"
proof -
  let ?s' = "s\<lparr>cs_total_messages := cs_total_messages s + 1, cs_last_activity := client_now e\<rparr>"
  let ?msg = "\<lparr> cm_id = next_message_id db, cm_session_id = mc_session_id md,
                cm_role = mc_role md, cm_content = mc_content md,
                cm_timestamp = server_now e, cm_sources = mc_sources md,
                cm_token_count = mc_token_count md \<rparr>"
  let ?db1 = "db\<lparr>chat_messages := chat_messages db @ [?msg],
                 next_message_id := Suc (next_message_id db)\<rparr>"
  let ?db2 = "?db1\<lparr>chat_sessions :=
                 map (\<lambda>r. if cs_id r = cs_id ?s' then ?s' else r) (chat_sessions ?db1)\<rparr>"
  note gs = get_session_Some[OF row]
  have f1: "flush_change (server_now e) (InsertMessage md) db = Inr ?db1"
    using gs(2) md by simp
  have f2: "flush_change (server_now e) (UpdateSession ?s') ?db1 = Inr ?db2"
    using gs(3) by simp
  have c: "commit e [InsertMessage md, UpdateSession ?s'] db = Inr ?db2"
    using ok f1 f2 by (simp add: commit_def)
  have rs: "refresh_session (cs_id ?s') ?db2 = Inr ?s'"
    using find_replace_by_id[OF gs(3), of ?s'] by (simp add: refresh_session_def)
  have g: "get_session sid ?db2 = Some ?s'"
    using find_replace_by_session_id[OF row[unfolded get_session_def], of ?s'] gs(1)
    by (simp add: get_session_def)
  have "list_ex (\<lambda>r. cm_id r = next_message_id db) (chat_messages ?db2)" by simp
  then obtain msg where rm: "refresh_message (next_message_id db) ?db2 = Inr msg"
    by (cases "find (\<lambda>r. cm_id r = next_message_id db) (chat_messages ?db2)")
       (auto simp: find_None_list_ex refresh_message_def)
  have n: "get_message_count sid ?db2 = get_message_count sid db + 1"
    using md by (simp add: get_message_count_def session_rows_def)
  have "LongTermMemory_add_message e md s db = (Inr (msg, ?s'), ?db2)"
    using c rs rm unfolding LongTermMemory_add_message_def Let_def by simp
  then show ?thesis using g n by blast
qed

lemma add_message_calls_count:
  assumes "get_session sid db = Some s"
    and "cs_total_messages s = n" "get_message_count sid db = n"
    and "list_all (\<lambda>c. mc_session_id (snd c) = sid) calls"
    and "add_message_calls calls s db = (Inr s', db')"
  shows "get_session sid db' = Some s' \<and> cs_total_messages s' = n + int (length calls)
       \<and> get_message_count sid db' = n + int (length calls)"
  using assms
proof (induction calls arbitrary: s db n)
  case Nil
  then show ?case by simp
next
  case (Cons c calls)
  obtain e md where c: "c = (e, md)" by (cases c)
  have md: "mc_session_id md = sid" using Cons.prems(4) c by simp
  show ?case
  proof (cases "commit_succeeds e")
    case False
    then show ?thesis using Cons.prems(5) c add_message_rejected[of e md s db] by simp
  next
    case True
    from add_message_success[OF Cons.prems(1) md True] obtain msg s1 db1 where
      a: "LongTermMemory_add_message e md s db = (Inr (msg, s1), db1)"
      and g: "get_session sid db1 = Some s1"
      and t: "cs_total_messages s1 = n + 1"
      and k: "get_message_count sid db1 = n + 1"
      using Cons.prems(2,3) by auto
    have r: "add_message_calls calls s1 db1 = (Inr s', db')"
      using Cons.prems(5) c a by simp
    have "list_all (\<lambda>c. mc_session_id (snd c) = sid) calls" using Cons.prems(4) by simp
    from Cons.IH[OF g t k this r] show ?thesis by simp
  qed
qed

lemma no_rows_without_session:
  assumes "foreign_keys_hold db" "get_session sid db = None"
  shows "get_message_count sid db = 0"
proof -
  have "\<not> list_ex (\<lambda>r. cs_session_id r = sid) (chat_sessions db)"
    using assms(2) by (simp add: get_session_def find_None_list_ex)
  then have "\<forall>m\<in>set (chat_messages db). cm_session_id m \<noteq> sid"
    using assms(1) by (auto simp: foreign_keys_hold_def list_all_iff list_ex_iff)
  then show ?thesis
    by (simp add: get_message_count_def session_rows_def filter_empty_conv)
qed

lemma get_or_create_absent:
  assumes "get_session sid db = None"
    and "get_or_create_session e sid pdf_ids uid db = (Inr s, db')"
    and "session_ids_fresh db"
  shows "get_session sid db' = Some s \<and> cs_session_id s = sid \<and> cs_pdf_ids s = pdf_ids
    \<and> cs_user_id s = uid
    \<and> cs_total_messages s = 0 \<and> cs_summary s = None \<and> chat_messages db' = chat_messages db"
proof (cases "commit_succeeds e")
  case True
  from create_session_fresh[OF True assms(3), of "\<lparr>sc_session_id = sid, sc_pdf_ids = pdf_ids, sc_user_id = uid\<rparr>"]
  show ?thesis using assms(1,2) by (auto simp: get_or_create_session_def)
next
  case False
  then show ?thesis using assms(1,2)
    by (simp add: get_or_create_session_def create_session_def commit_def)
qed



text \<open>
  Claim C4. Create the session \<open>sid\<close> in a database that does not have it, then let
  the calls \<open>calls\<close> of \<open>add_message\<close> for that session all succeed, each on the
  session object the previous one updated. Then \<open>total_messages\<close> of the session and
  the number of persisted rows of the session both equal the number of calls, and the
  persisted session row is the object. The insert and the increment are one transaction:
  a further call either raises and leaves the tables as they were, or persists one more
  row together with a counter one higher.
\<close>

theorem counter_matches_rows:
  assumes fresh: "session_ids_fresh db0" and fk: "foreign_keys_hold db0"
    and absent: "get_session sid db0 = None"
    and created: "get_or_create_session e0 sid pdf_ids uid db0 = (Inr s0, db1)"
    and for_sid: "list_all (\<lambda>c. mc_session_id (snd c) = sid) calls"
    and run: "add_message_calls calls s0 db1 = (Inr s, db)"
  shows "cs_total_messages s = int (length calls)
       \<and> get_message_count sid db = int (length calls)
       \<and> get_session sid db = Some s
       \<and> (\<forall>e md. mc_session_id md = sid \<longrightarrow>
            (case LongTermMemory_add_message e md s db of
               (Inl err, db') \<Rightarrow> db' = db
             | (Inr (msg, s'), db') \<Rightarrow>
                 get_session sid db' = Some s'
                 \<and> cs_total_messages s' = int (length calls) + 1
                 \<and> get_message_count sid db' = int (length calls) + 1))"
proof -
  from get_or_create_absent[OF absent created fresh]
  have g0: "get_session sid db1 = Some s0" and t0: "cs_total_messages s0 = 0"
    and m0: "chat_messages db1 = chat_messages db0" by auto
  have k0: "get_message_count sid db1 = 0"
    using no_rows_without_session[OF fk absent] m0
    by (simp add: get_message_count_def session_rows_def)
  from add_message_calls_count[OF g0 t0 k0 for_sid run]
  have g: "get_session sid db = Some s" and t: "cs_total_messages s = int (length calls)"
    and k: "get_message_count sid db = int (length calls)" by auto
  have "case LongTermMemory_add_message e md s db of
               (Inl err, db') \<Rightarrow> db' = db
             | (Inr (msg, s'), db') \<Rightarrow>
                 get_session sid db' = Some s'
                 \<and> cs_total_messages s' = int (length calls) + 1
                 \<and> get_message_count sid db' = int (length calls) + 1"
    if md: "mc_session_id md = sid" for e md
  proof (cases "commit_succeeds e")
    case True
    from add_message_success[OF g md True] show ?thesis using t k by auto
  next
    case False
    then show ?thesis using add_message_rejected[of e md s db] by simp
  qed
  then show ?thesis using g t k by simp
qed

theorem counter_matches_rows_witness:
  "session_ids_fresh empty_database \<and> foreign_keys_hold empty_database
   \<and> get_session ''s1'' empty_database = None
   \<and> get_or_create_session (env_at 1) ''s1'' [1] None empty_database
       = (Inr (session_s1\<lparr>cs_total_messages := 0, cs_last_activity := 1\<rparr>),
          empty_database\<lparr>chat_sessions := [session_s1\<lparr>cs_total_messages := 0, cs_last_activity := 1\<rparr>],
                           next_session_id := 2\<rparr>)
   \<and> list_all (\<lambda>c. mc_session_id (snd c) = ''s1'')
        [(env_at 5, user_message ''s1'' ''a''), (env_at 5, user_message ''s1'' ''b'')]
   \<and> add_message_calls [(env_at 5, user_message ''s1'' ''a''), (env_at 5, user_message ''s1'' ''b'')]
        (session_s1\<lparr>cs_total_messages := 0, cs_last_activity := 1\<rparr>)
        (empty_database\<lparr>chat_sessions := [session_s1\<lparr>cs_total_messages := 0, cs_last_activity := 1\<rparr>],
                           next_session_id := 2\<rparr>)
       = (Inr session_s1, tied_database)
   \<and> cs_total_messages session_s1 = 2
   \<and> get_message_count ''s1'' tied_database = 2
   \<and> snd (LongTermMemory_add_message (env_at 6\<lparr>commit_succeeds := False\<rparr>)
             (user_message ''s1'' ''c'') session_s1 tied_database) = tied_database"
proof -
  let ?s0 = "session_s1\<lparr>cs_total_messages := 0, cs_last_activity := 1\<rparr>"
  let ?db1 = "empty_database\<lparr>chat_sessions := [?s0], next_session_id := 2\<rparr>"
  let ?calls = "[(env_at 5, user_message ''s1'' ''a''), (env_at 5, user_message ''s1'' ''b'')]"
  have h1: "session_ids_fresh empty_database" by code_simp
  have h2: "foreign_keys_hold empty_database" by code_simp
  have h3: "get_session ''s1'' empty_database = None" by code_simp
  have h4: "get_or_create_session (env_at 1) ''s1'' [1] None empty_database = (Inr ?s0, ?db1)"
    by code_simp
  have h5: "list_all (\<lambda>c. mc_session_id (snd c) = ''s1'') ?calls" by code_simp
  have h6: "add_message_calls ?calls ?s0 ?db1 = (Inr session_s1, tied_database)" by code_simp
  have h7: "mc_session_id (user_message ''s1'' ''c'') = ''s1''" by code_simp
  have h8: "fst (LongTermMemory_add_message (env_at 6\<lparr>commit_succeeds := False\<rparr>)
             (user_message ''s1'' ''c'') session_s1 tied_database) = Inl (DatabaseError ''OperationalError'')"
    by code_simp
  note t = counter_matches_rows[OF h1 h2 h3 h4 h5 h6]
  note next_call = t[THEN conjunct2, THEN conjunct2, THEN conjunct2, rule_format]
  obtain r d where rd: "LongTermMemory_add_message (env_at 6\<lparr>commit_succeeds := False\<rparr>)
             (user_message ''s1'' ''c'') session_s1 tied_database = (r, d)"
    by (cases "LongTermMemory_add_message (env_at 6\<lparr>commit_succeeds := False\<rparr>)
             (user_message ''s1'' ''c'') session_s1 tied_database")
  have "r = Inl (DatabaseError ''OperationalError'')" using h8 rd by simp
  then have "d = tied_database"
    using next_call[OF h7, of "env_at 6\<lparr>commit_succeeds := False\<rparr>"] rd by simp
  then have "snd (LongTermMemory_add_message (env_at 6\<lparr>commit_succeeds := False\<rparr>)
             (user_message ''s1'' ''c'') session_s1 tied_database) = tied_database"
    using rd by simp
  then show ?thesis using t h1 h2 h3 h4 h5 h6 by simp
qed

lemma sorted_key_unique:
  assumes "mset xs = mset ys" "sorted (map f xs)" "sorted (map f ys)" "distinct (map f xs)"
  shows "xs = ys"
proof -
  have d: "distinct (map f ys)"
    using assms(1,4) by (metis mset_map mset_eq_imp_distinct_iff)
  have "set (map f xs) = set (map f ys)" using assms(1) by (metis mset_eq_setD mset_map)
  then have m: "map f xs = map f ys"
    using assms(2,3,4) d by (intro sorted_distinct_set_unique) auto
  have "inj_on f (set xs \<union> set ys)"
    using assms(1,4) by (metis distinct_map mset_eq_setD sup.idem)
  then show ?thesis using m by (simp add: inj_on_map_eq_map)
qed

text \<open>
  Claim C5, as amended. For a positive limit, and a correct answer of the database to the
  descending query, \<open>get_recent_messages\<close> returns \<open>min(limit, total)\<close> messages in
  non-decreasing timestamp order: the last ones of the chronological list that is the
  reverse of the database's descending answer. When the timestamps of the session's
  messages are pairwise distinct, the result is the suffix of that length of the
  chronological history that \<open>get_messages\<close> returns.
\<close>

theorem recent_messages_chronological:
  assumes lim: "0 < limit"
    and desc: "answers_desc q (session_rows sid db)"
  shows "\<exists>r. LongTermMemory_get_recent_messages q sid limit db = Inr r
     \<and> chronological r
     \<and> int (length r) = min limit (get_message_count sid db)
     \<and> r = drop (length (session_rows sid db) - length r)
               (rev (order_by_timestamp_desc q (session_rows sid db)))
     \<and> (distinct (map cm_timestamp (session_rows sid db)) \<and> answers_asc q (session_rows sid db)
          \<longrightarrow> (\<exists>h. get_messages q sid None 0 db = Inr h
                 \<and> int (length h) = get_message_count sid db
                 \<and> r = drop (length h - length r) h))"
proof -
  let ?rows = "session_rows sid db"
  let ?d = "order_by_timestamp_desc q ?rows"
  let ?r = "rev (take (nat limit) ?d)"
  have ms: "mset ?d = mset ?rows" and ch: "chronological (rev ?d)"
    using desc by (auto simp: answers_desc_def)
  have len: "length ?d = length ?rows" using ms by (metis size_mset)
  have res: "LongTermMemory_get_recent_messages q sid limit db = Inr ?r"
    using lim by (simp add: LongTermMemory_get_recent_messages_def sql_limit_def)
  have suf: "?r = drop (length ?d - nat limit) (rev ?d)" by (simp add: rev_take)
  have c: "chronological ?r"
  proof -
    have "sorted (drop (length ?d - nat limit) (map cm_timestamp (rev ?d)))"
      using ch unfolding chronological_def by (rule sorted_wrt_drop)
    then show ?thesis unfolding chronological_def suf by (simp only: drop_map)
  qed
  have l: "int (length ?r) = min limit (get_message_count sid db)"
  proof -
    have "length ?r = min (nat limit) (length ?rows)" using len by simp
    then show ?thesis using lim unfolding get_message_count_def by linarith
  qed
  have suf': "?r = drop (length ?rows - length ?r) (rev ?d)"
    using suf len by (simp add: min_def)
  have u: "\<exists>h. get_messages q sid None 0 db = Inr h \<and> int (length h) = get_message_count sid db
                 \<and> ?r = drop (length h - length ?r) h"
    if dist: "distinct (map cm_timestamp ?rows)" and asc: "answers_asc q ?rows"
  proof -
    let ?h = "order_by_timestamp q ?rows"
    have mh: "mset ?h = mset ?rows" and sh: "sorted (map cm_timestamp ?h)"
      using asc by (auto simp: answers_asc_def chronological_def)
    have dh: "distinct (map cm_timestamp ?h)"
      using dist mh by (metis mset_eq_imp_distinct_iff mset_map)
    have "mset ?h = mset (rev ?d)" using mh ms by simp
    from sorted_key_unique[OF this sh ch[unfolded chronological_def] dh]
    have eq: "?h = rev ?d" .
    have "get_messages q sid None 0 db = Inr ?h"
      by (simp add: get_messages_def py_truthy_def)
    moreover have "int (length ?h) = get_message_count sid db"
      using mh by (metis get_message_count_def size_mset)
    moreover have "?r = drop (length ?h - length ?r) ?h"
      using suf' eq len by simp
    ultimately show ?thesis by blast
  qed
  show ?thesis using res c l suf' u by blast
qed

text \<open>
  With equal timestamps the claim of C5 fails as stated: both messages of session
  \<open>s1\<close> in \<open>tied_database\<close> carry the timestamp 5, both answers of the stable engine
  are correct answers, \<open>get_recent_messages\<close> with limit 1 returns the first message
  and the suffix of length 1 of the history returned by \<open>get_messages\<close> is the second.
\<close>

theorem recent_messages_suffix_counterexample:
  "answers_desc stable_engine (session_rows ''s1'' tied_database)
   \<and> answers_asc stable_engine (session_rows ''s1'' tied_database)
   \<and> LongTermMemory_get_recent_messages stable_engine ''s1'' 1 tied_database = Inr [message_a]
   \<and> get_messages stable_engine ''s1'' None 0 tied_database = Inr [message_a, message_b]
   \<and> [message_a] \<noteq> drop (length [message_a, message_b] - 1) [message_a, message_b]"
proof -
  have "answers_desc stable_engine (session_rows ''s1'' tied_database)"
    by (simp add: answers_desc_def stable_engine_def tied_database_def
        session_rows_def message_a_def message_b_def chronological_def)
  moreover have "answers_asc stable_engine (session_rows ''s1'' tied_database)"
    by (simp add: answers_asc_def stable_engine_def tied_database_def
        session_rows_def message_a_def message_b_def chronological_def)
  moreover have
    "LongTermMemory_get_recent_messages stable_engine ''s1'' 1 tied_database = Inr [message_a]"
    by (simp add: LongTermMemory_get_recent_messages_def stable_engine_def tied_database_def
        session_rows_def message_a_def message_b_def sql_limit_def)
  moreover have
    "get_messages stable_engine ''s1'' None 0 tied_database = Inr [message_a, message_b]"
    by (simp add: get_messages_def stable_engine_def tied_database_def
        session_rows_def message_a_def message_b_def py_truthy_def)
  moreover have "message_a \<noteq> message_b"
    by (simp add: message_a_def message_b_def)
  ultimately show ?thesis by simp
qed

text \<open>The database of the example is reached by the operations of the store.\<close>

lemma tied_database_reachable:
  "get_or_create_session (env_at 1) ''s1'' [1] None empty_database
     = (Inr (session_s1\<lparr>cs_total_messages := 0, cs_last_activity := 1\<rparr>),
        empty_database\<lparr>chat_sessions := [session_s1\<lparr>cs_total_messages := 0, cs_last_activity := 1\<rparr>],
                         next_session_id := 2\<rparr>)
   \<and> add_message_calls [(env_at 5, user_message ''s1'' ''a''), (env_at 5, user_message ''s1'' ''b'')]
        (session_s1\<lparr>cs_total_messages := 0, cs_last_activity := 1\<rparr>)
        (empty_database\<lparr>chat_sessions := [session_s1\<lparr>cs_total_messages := 0, cs_last_activity := 1\<rparr>],
                           next_session_id := 2\<rparr>)
       = (Inr session_s1, tied_database)"
  by code_simp

theorem recent_messages_chronological_witness:
  "(0::int) < 1
   \<and> answers_desc stable_engine (session_rows ''s1'' ordered_database)
   \<and> answers_asc stable_engine (session_rows ''s1'' ordered_database)
   \<and> distinct (map cm_timestamp (session_rows ''s1'' ordered_database))
   \<and> LongTermMemory_get_recent_messages stable_engine ''s1'' 1 ordered_database = Inr [message_c]
   \<and> get_messages stable_engine ''s1'' None 0 ordered_database = Inr [message_a, message_c]
   \<and> chronological [message_c]
   \<and> int (length [message_c]) = min 1 (get_message_count ''s1'' ordered_database)
   \<and> [message_c] = drop (length [message_a, message_c] - length [message_c]) [message_a, message_c]"
proof -
  have h1: "(0::int) < 1" by simp
  have h2: "answers_desc stable_engine (session_rows ''s1'' ordered_database)"
    by (simp add: answers_desc_def stable_engine_def ordered_database_def tied_database_def
        session_rows_def message_a_def message_b_def message_c_def chronological_def)
  have h3: "answers_asc stable_engine (session_rows ''s1'' ordered_database)"
    by (simp add: answers_asc_def stable_engine_def ordered_database_def tied_database_def
        session_rows_def message_a_def message_b_def message_c_def chronological_def)
  have h4: "distinct (map cm_timestamp (session_rows ''s1'' ordered_database))"
    by (simp add: ordered_database_def tied_database_def
        session_rows_def message_a_def message_b_def message_c_def)
  have h5: "LongTermMemory_get_recent_messages stable_engine ''s1'' 1 ordered_database
              = Inr [message_c]"
    by (simp add: LongTermMemory_get_recent_messages_def stable_engine_def ordered_database_def
        tied_database_def session_rows_def message_a_def message_b_def message_c_def
        sql_limit_def)
  have h6: "get_messages stable_engine ''s1'' None 0 ordered_database
              = Inr [message_a, message_c]"
    by (simp add: get_messages_def stable_engine_def ordered_database_def tied_database_def
        session_rows_def message_a_def message_b_def message_c_def py_truthy_def)
  from recent_messages_chronological[OF h1 h2] obtain r where
    r: "LongTermMemory_get_recent_messages stable_engine ''s1'' 1 ordered_database = Inr r"
    and c: "chronological r"
    and l: "int (length r) = min 1 (get_message_count ''s1'' ordered_database)"
    and u: "distinct (map cm_timestamp (session_rows ''s1'' ordered_database))
              \<and> answers_asc stable_engine (session_rows ''s1'' ordered_database)
            \<longrightarrow> (\<exists>h. get_messages stable_engine ''s1'' None 0 ordered_database = Inr h
                   \<and> int (length h) = get_message_count ''s1'' ordered_database
                   \<and> r = drop (length h - length r) h)"
    by blast
  from r h5 have rc: "r = [message_c]" by simp
  from u h3 h4 h6 rc
  have "[message_c] = drop (length [message_a, message_c] - length [message_c])
                        [message_a, message_c]"
    by auto
  with c l rc h1 h2 h3 h4 h5 h6 show ?thesis by simp
qed

section \<open>A limit of zero\<close>

lemma map_filter_format_message:
  "map to_lc_message (List.map_filter format_message ms) = filter is_chat_message ms
   \<and> list_all valid_role (List.map_filter format_message ms)"
proof (induction ms)
  case Nil
  then show ?case by simp
next
  case (Cons m ms)
  then show ?case
    by (cases m) (simp_all add: to_lc_message_def valid_role_def)
qed

lemma trim_buffer_chat:
  assumes "list_all is_chat_message (messages s)"
  shows "list_all is_chat_message (messages (trim_buffer s))"
proof -
  obtain ys where "messages s = ys @ messages (trim_buffer s)" using trim_suffix by blast
  then show ?thesis using assms by (metis list_all_append)
qed

lemma add_message_chat:
  assumes "list_all is_chat_message (messages s)"
    and "ShortTermMemory_add_message r c s = Inr s'"
  shows "list_all is_chat_message (messages s')"
proof -
  let ?s1 = "s\<lparr>messages := messages s @ [to_lc_message \<lparr>role = r, content = c\<rparr>]\<rparr>"
  have "list_all is_chat_message (messages ?s1)"
    using assms(1) by (simp add: to_lc_message_def)
  from trim_buffer_chat[OF this] show ?thesis using assms(2) by (simp add: add_message_Inr)
qed

lemma load_messages_batch_chat:
  "list_all is_chat_message (messages s) \<Longrightarrow>
   list_all is_chat_message (messages (snd (load_messages_batch ms s)))"
  by (induction ms arbitrary: s) auto

text \<open>
  Claim C10. The limit is tested for truthiness. In the short-term memory a limit of 0
  gives what no limit gives: one dictionary with a valid role for every chat message of
  the buffer, in the order of the buffer, whose message is that buffer entry; for a
  buffer that holds chat messages only, which is every buffer the class builds, these
  are all the buffered messages. In the long-term memory \<open>get_messages\<close> with a limit
  of 0 is \<open>get_messages\<close> with no limit, for every offset, and with the default offset
  it is the database's ascending answer for all the rows of the session: when that
  answer is correct, every message of the session, in chronological order.
\<close>

theorem zero_limit_means_no_limit:
  "ShortTermMemory_get_recent_messages (Some 0) s = ShortTermMemory_get_recent_messages None s
   \<and> list_all valid_role (ShortTermMemory_get_recent_messages (Some 0) s)
   \<and> map to_lc_message (ShortTermMemory_get_recent_messages (Some 0) s)
       = filter is_chat_message (messages s)
   \<and> (list_all is_chat_message (messages s) \<longrightarrow>
         map to_lc_message (ShortTermMemory_get_recent_messages (Some 0) s) = messages s
         \<and> length (ShortTermMemory_get_recent_messages (Some 0) s) = length (messages s))
   \<and> get_messages q sid (Some 0) offset db = get_messages q sid None offset db
   \<and> get_messages q sid (Some 0) 0 db
       = Inr (order_by_timestamp q (filter (\<lambda>m. cm_session_id m = sid) (chat_messages db)))
   \<and> (answers_asc q (session_rows sid db) \<longrightarrow>
         (\<exists>h. get_messages q sid (Some 0) 0 db = Inr h
              \<and> mset h = mset (filter (\<lambda>m. cm_session_id m = sid) (chat_messages db))
              \<and> chronological h))"
proof -
  let ?r = "ShortTermMemory_get_recent_messages (Some 0) s"
  have r: "?r = List.map_filter format_message (messages s)"
    by (simp add: ShortTermMemory_get_recent_messages_def py_truthy_def)
  have 1: "?r = ShortTermMemory_get_recent_messages None s"
    by (simp add: ShortTermMemory_get_recent_messages_def py_truthy_def)
  have 2: "list_all valid_role ?r" and 3: "map to_lc_message ?r = filter is_chat_message (messages s)"
    using map_filter_format_message[of "messages s"] r by simp_all
  have 4: "map to_lc_message ?r = messages s \<and> length ?r = length (messages s)"
    if "list_all is_chat_message (messages s)"
  proof -
    have "filter is_chat_message (messages s) = messages s"
      using that by (simp add: list_all_iff)
    then have "map to_lc_message ?r = messages s" using 3 by simp
    then show ?thesis by (metis length_map)
  qed
  have 5: "get_messages q sid (Some 0) offset db = get_messages q sid None offset db"
    by (simp add: get_messages_def py_truthy_def Let_def split: sum.splits)
  have 6: "get_messages q sid (Some 0) 0 db
       = Inr (order_by_timestamp q (filter (\<lambda>m. cm_session_id m = sid) (chat_messages db)))"
    by (simp add: get_messages_def py_truthy_def session_rows_def)
  have 7: "\<exists>h. get_messages q sid (Some 0) 0 db = Inr h
              \<and> mset h = mset (filter (\<lambda>m. cm_session_id m = sid) (chat_messages db))
              \<and> chronological h"
    if "answers_asc q (session_rows sid db)"
    using that 6 by (simp add: answers_asc_def session_rows_def)
  show ?thesis using 1 2 3 4 5 6 7 by blast
qed

theorem zero_limit_means_no_limit_witness:
  "list_all is_chat_message (messages (short_term manager_s1))
   \<and> ShortTermMemory_get_recent_messages (Some 0) (short_term manager_s1)
       = [\<lparr>role = ''user'', content = ''a''\<rparr>, \<lparr>role = ''user'', content = ''b''\<rparr>,
          \<lparr>role = ''assistant'', content = ''c''\<rparr>]
   \<and> ShortTermMemory_get_recent_messages None (short_term manager_s1)
       = [\<lparr>role = ''user'', content = ''a''\<rparr>, \<lparr>role = ''user'', content = ''b''\<rparr>,
          \<lparr>role = ''assistant'', content = ''c''\<rparr>]
   \<and> length (ShortTermMemory_get_recent_messages (Some 0) (short_term manager_s1)) = 3
   \<and> answers_asc stable_engine (session_rows ''s1'' tied_database)
   \<and> get_messages stable_engine ''s1'' (Some 0) 0 tied_database = Inr [message_a, message_b]
   \<and> get_messages stable_engine ''s1'' None 0 tied_database = Inr [message_a, message_b]"
proof -
  let ?s = "short_term manager_s1"
  have h1: "list_all is_chat_message (messages ?s)" by code_simp
  have h2: "ShortTermMemory_get_recent_messages None ?s
       = [\<lparr>role = ''user'', content = ''a''\<rparr>, \<lparr>role = ''user'', content = ''b''\<rparr>,
          \<lparr>role = ''assistant'', content = ''c''\<rparr>]" by code_simp
  have h3: "length (messages ?s) = 3" by code_simp
  have h4: "answers_asc stable_engine (session_rows ''s1'' tied_database)"
    by (simp add: answers_asc_def stable_engine_def tied_database_def
        session_rows_def message_a_def message_b_def chronological_def)
  have h5: "get_messages stable_engine ''s1'' None 0 tied_database = Inr [message_a, message_b]"
    by (simp add: get_messages_def stable_engine_def tied_database_def
        session_rows_def message_a_def message_b_def py_truthy_def)
  note t = zero_limit_means_no_limit[of ?s stable_engine "''s1''" 0 tied_database]
  from t h2 have a: "ShortTermMemory_get_recent_messages (Some 0) ?s
       = [\<lparr>role = ''user'', content = ''a''\<rparr>, \<lparr>role = ''user'', content = ''b''\<rparr>,
          \<lparr>role = ''assistant'', content = ''c''\<rparr>]" by metis
  from t h1 have "length (ShortTermMemory_get_recent_messages (Some 0) ?s) = length (messages ?s)"
    by blast
  with h3 have b: "length (ShortTermMemory_get_recent_messages (Some 0) ?s) = 3" by simp
  from t h5 have c: "get_messages stable_engine ''s1'' (Some 0) 0 tied_database
                       = Inr [message_a, message_b]" by metis
  show ?thesis using h1 h2 h4 h5 a b c by simp
qed

section \<open>Fallbacks of the LLM calls\<close>

lemma conversation_summary_cases:
  "get_conversation_summary invoke tok s =
     (if length (messages s) < 4 then Inr ''''
      else (case tok (get_buffer_string s) of
              Inl e \<Rightarrow> Inl e
            | Inr tokens \<Rightarrow>
                if int (length tokens) < max_tokens_before_summary s then Inr ''''
                else Inr (case invoke (summary_request (get_buffer_string s)) of
                            Inl e \<Rightarrow> ''''
                          | Inr response \<Rightarrow> py_strip response)))"
  by (simp add: get_conversation_summary_def count_tokens_def try_except_def Let_def
      split: sum.splits)

lemma conversation_summary_tokenized:
  "tok (get_buffer_string s) = Inr tokens \<Longrightarrow>
   \<exists>summary. get_conversation_summary invoke tok s = Inr summary"
  by (simp add: conversation_summary_cases)

text \<open>
  Claim C7, evaluated on the code. The token count is taken before the \<open>try\<close>. On a
  buffer of four messages, one of which is the text of a special token, the tokenizer
  raises and \<open>get_conversation_summary\<close> raises that \<open>ValueError\<close> to its caller.
  On the same conversation without the special token the function returns the empty
  string when the LLM call fails and the stripped output of the LLM otherwise.
\<close>

theorem conversation_summary_raises_on_special_token:
  "length (messages special_token_buffer) = 4
   \<and> get_buffer_string special_token_buffer
       = ''Human: hello\<newline>AI: <|endoftext|>\<newline>Human: and then?\<newline>AI: done''
   \<and> get_conversation_summary echo_llm special_token_tokenizer special_token_buffer
       = Inl (ValueError ''Encountered text corresponding to disallowed special token'')
   \<and> get_conversation_summary (\<lambda>request. Inl (ExternalError ''timeout''))
         special_token_tokenizer plain_buffer = Inr ''''
   \<and> get_conversation_summary echo_llm special_token_tokenizer plain_buffer
       = Inr (''Summarize this conversation:\<newline>\<newline>''
              @ ''Human: hello\<newline>AI: hi\<newline>Human: and then?\<newline>AI: done'')"
  by code_simp

text \<open>
  Claim C8. \<open>reformulate_query\<close> returns the original query when there are no recent
  messages and no conversation summary. For every input it returns the original query
  when the LLM call raises and when the stripped output of the LLM is empty or shorter
  than 10 characters. It always returns a string: it never raises.
\<close>

theorem reformulate_query_fallback:
  "(recent = [] \<and> \<not> str_truthy summary \<longrightarrow>
      reformulate_query invoke query recent summary = Inr query)
   \<and> (\<forall>e. invoke [SystemMessage build_system_prompt,
                    HumanMessage (build_user_prompt query recent summary)] = Inl e \<longrightarrow>
          reformulate_query invoke query recent summary = Inr query)
   \<and> (\<forall>response. invoke [SystemMessage build_system_prompt,
                           HumanMessage (build_user_prompt query recent summary)] = Inr response
                   \<and> length (py_strip response) < 10 \<longrightarrow>
          reformulate_query invoke query recent summary = Inr query)
   \<and> (\<exists>answer. reformulate_query invoke query recent summary = Inr answer)"
  by (auto simp: reformulate_query_def try_except_def Let_def split: sum.splits)

theorem reformulate_query_fallback_witness:
  "reformulate_query (\<lambda>request. Inr ''a much longer reformulated query'') ''And the second one?'' [] (Some '''')
     = Inr ''And the second one?''
   \<and> reformulate_query (\<lambda>request. Inl (ExternalError ''timeout'')) ''And the second one?''
       [message_a] None = Inr ''And the second one?''
   \<and> length (py_strip ''  too short  '') < 10
   \<and> reformulate_query (\<lambda>request. Inr ''  too short  '') ''And the second one?''
       [message_a] None = Inr ''And the second one?''"
proof -
  let ?q = "''And the second one?''"
  have a: "([]::ChatMessage list) = [] \<and> \<not> str_truthy (Some '''')"
    by (simp add: str_truthy_def)
  have c: "length (py_strip ''  too short  '') < 10" by code_simp
  note t1 = reformulate_query_fallback[of "[]" "Some ''''" "\<lambda>request. Inr ''a much longer reformulated query''" ?q]
  note t2 = reformulate_query_fallback[of "[message_a]" None "\<lambda>request. Inl (ExternalError ''timeout'')" ?q]
  note t3 = reformulate_query_fallback[of "[message_a]" None "\<lambda>request. Inr ''  too short  ''" ?q]
  from t1 a have r1: "reformulate_query (\<lambda>request. Inr ''a much longer reformulated query'') ?q [] (Some '''') = Inr ?q"
    by blast
  from t2 have r2: "reformulate_query (\<lambda>request. Inl (ExternalError ''timeout'')) ?q [message_a] None = Inr ?q"
    by blast
  from t3 c have r3: "reformulate_query (\<lambda>request. Inr ''  too short  '') ?q [message_a] None = Inr ?q"
    by blast
  from r1 r2 r3 c show ?thesis by simp
qed

section \<open>The buffer bound and bulk loading\<close>

lemma load_messages_batch_messages:
  "messages (snd (load_messages_batch ms s)) = messages s @ map to_lc_message (takeWhile valid_role ms)"
  by (induction ms arbitrary: s) (auto simp: valid_role_def to_lc_message_def)

lemma load_messages_batch_keep:
  "messages_to_keep (snd (load_messages_batch ms s)) = messages_to_keep s"
  by (induction ms arbitrary: s) auto

lemma load_messages_batch_outcome:
  "fst (load_messages_batch ms s) = None \<longleftrightarrow> list_all valid_role ms"
  by (induction ms arbitrary: s) (auto simp: valid_role_def)

lemma trim_buffer_messages:
  assumes "0 < messages_to_keep s"
  shows "messages (trim_buffer s) =
           (if 2 * messages_to_keep s < int (length (messages s))
            then drop (length (messages s) - nat (messages_to_keep s)) (messages s)
            else messages s)"
  using assms by (simp add: trim_buffer_def py_slice_last_def)

lemma add_message_invalid:
  "\<not> valid_role \<lparr>role = r, content = c\<rparr> \<Longrightarrow> ShortTermMemory_add_message r c s = Inl (invalid_role r)"
  by (simp add: ShortTermMemory_add_message_def valid_role_def)

lemma load_loop_inv:
  assumes "0 < messages_to_keep s" "buffer_bounded s"
  shows "buffer_bounded (snd (load_loop ms s))
       \<and> messages_to_keep (snd (load_loop ms s)) = messages_to_keep s
       \<and> (\<exists>older. messages s @ map to_lc_message (takeWhile valid_role ms)
                     = older @ messages (snd (load_loop ms s)))
       \<and> (fst (load_loop ms s) = None \<longleftrightarrow> list_all valid_role ms)"
  using assms
proof (induction ms arbitrary: s)
  case Nil
  then show ?case by simp
next
  case (Cons m ms)
  show ?case
  proof (cases "valid_role m")
    case False
    then have "ShortTermMemory_add_message (role m) (content m) s = Inl (invalid_role (role m))"
      by (simp add: ShortTermMemory_add_message_def valid_role_def)
    then show ?thesis using False Cons.prems by simp
  next
    case True
    let ?s1 = "trim_buffer (s\<lparr>messages := messages s @ [to_lc_message m]\<rparr>)"
    have a: "ShortTermMemory_add_message (role m) (content m) s = Inr ?s1"
      using True by (simp add: add_message_Inr to_lc_message_def valid_role_def)
    have b1: "buffer_bounded ?s1" and k1: "messages_to_keep ?s1 = messages_to_keep s"
      using add_message_step[OF Cons.prems(1,2) a] by auto
    obtain zs where zs: "messages s @ [to_lc_message m] = zs @ messages ?s1"
      using trim_suffix[of "s\<lparr>messages := messages s @ [to_lc_message m]\<rparr>"] by auto
    from Cons.IH[OF _ b1] k1 Cons.prems(1) obtain older where
      i: "buffer_bounded (snd (load_loop ms ?s1))"
         "messages_to_keep (snd (load_loop ms ?s1)) = messages_to_keep s"
         "messages ?s1 @ map to_lc_message (takeWhile valid_role ms)
            = older @ messages (snd (load_loop ms ?s1))"
         "fst (load_loop ms ?s1) = None \<longleftrightarrow> list_all valid_role ms"
      by auto
    have l: "load_loop (m # ms) s = load_loop ms ?s1" using a by simp
    have "messages s @ map to_lc_message (takeWhile valid_role (m # ms))
            = (messages s @ [to_lc_message m]) @ map to_lc_message (takeWhile valid_role ms)"
      using True by simp
    also have "\<dots> = zs @ older @ messages (snd (load_loop ms ?s1))"
      using zs i(3) by (metis append_assoc)
    finally have "\<exists>older. messages s @ map to_lc_message (takeWhile valid_role (m # ms))
                     = older @ messages (snd (load_loop (m # ms) s))"
      unfolding l by (metis append_assoc)
    then show ?thesis using i True unfolding l by simp
  qed
qed

text \<open>
  Claim C2, as amended. For a positive keep size and a buffer within the bound of
  \<open>2 \<times> keep_size\<close>: \<open>add_message\<close> with a valid role appends the message and, once
  the length exceeds the bound, keeps exactly the most recent \<open>keep_size\<close> entries, so
  the bound holds after it; with an invalid role it raises. \<open>clear\<close> empties the
  buffer. \<open>load_from_messages\<close> leaves a buffer within the bound that is a suffix of
  the items it added, whether it returns or raises at an invalid role.
  \<open>load_messages_batch\<close> makes no truncation check: it appends the items of the batch
  up to the first invalid role and keeps the rest of the buffer, so the bound holds
  after it exactly when the old length plus the number of items appended is at most
  \<open>2 \<times> keep_size\<close>.
\<close>

theorem buffer_bound_preserved:
  assumes k: "0 < messages_to_keep s" and b: "buffer_bounded s"
  shows "(\<forall>r c. valid_role \<lparr>role = r, content = c\<rparr> \<longrightarrow>
            (\<exists>s'. ShortTermMemory_add_message r c s = Inr s'
               \<and> buffer_bounded s'
               \<and> messages_to_keep s' = messages_to_keep s
               \<and> messages s' =
                   (if 2 * messages_to_keep s < int (length (messages s)) + 1
                    then drop (length (messages s) + 1 - nat (messages_to_keep s))
                           (messages s @ [to_lc_message \<lparr>role = r, content = c\<rparr>])
                    else messages s @ [to_lc_message \<lparr>role = r, content = c\<rparr>])
               \<and> (2 * messages_to_keep s < int (length (messages s)) + 1 \<longrightarrow>
                     int (length (messages s')) = messages_to_keep s)))
       \<and> (\<forall>r c. \<not> valid_role \<lparr>role = r, content = c\<rparr> \<longrightarrow>
            ShortTermMemory_add_message r c s = Inl (invalid_role r))
       \<and> buffer_bounded (clear s) \<and> messages (clear s) = []
       \<and> (\<forall>ms. buffer_bounded (snd (load_from_messages ms s))
              \<and> (\<exists>older. map to_lc_message (takeWhile valid_role ms)
                             = older @ messages (snd (load_from_messages ms s)))
              \<and> (fst (load_from_messages ms s) = None \<longleftrightarrow> list_all valid_role ms))
       \<and> (\<forall>ms. messages (snd (load_messages_batch ms s))
                  = messages s @ map to_lc_message (takeWhile valid_role ms)
              \<and> (fst (load_messages_batch ms s) = None \<longleftrightarrow> list_all valid_role ms)
              \<and> (buffer_bounded (snd (load_messages_batch ms s)) \<longleftrightarrow>
                    int (length (messages s)) + int (length (takeWhile valid_role ms))
                      \<le> 2 * messages_to_keep s))"
proof -
  have 1: "\<exists>s'. ShortTermMemory_add_message r c s = Inr s'
               \<and> buffer_bounded s'
               \<and> messages_to_keep s' = messages_to_keep s
               \<and> messages s' =
                   (if 2 * messages_to_keep s < int (length (messages s)) + 1
                    then drop (length (messages s) + 1 - nat (messages_to_keep s))
                           (messages s @ [to_lc_message \<lparr>role = r, content = c\<rparr>])
                    else messages s @ [to_lc_message \<lparr>role = r, content = c\<rparr>])
               \<and> (2 * messages_to_keep s < int (length (messages s)) + 1 \<longrightarrow>
                     int (length (messages s')) = messages_to_keep s)"
    if v: "valid_role \<lparr>role = r, content = c\<rparr>" for r c
  proof -
    let ?new = "to_lc_message \<lparr>role = r, content = c\<rparr>"
    let ?s1 = "s\<lparr>messages := messages s @ [?new]\<rparr>"
    have a: "ShortTermMemory_add_message r c s = Inr (trim_buffer ?s1)"
      using v by (simp add: add_message_Inr)
    have bb: "buffer_bounded (trim_buffer ?s1)"
      using add_message_step(1)[OF k b a] .
    have m: "messages (trim_buffer ?s1) =
                   (if 2 * messages_to_keep s < int (length (messages s)) + 1
                    then drop (length (messages s) + 1 - nat (messages_to_keep s))
                           (messages s @ [?new])
                    else messages s @ [?new])"
      using trim_buffer_messages[of ?s1] k by simp
    have l: "int (length (messages (trim_buffer ?s1))) = messages_to_keep s"
      if t: "2 * messages_to_keep s < int (length (messages s)) + 1"
    proof -
      have "nat (messages_to_keep s) \<le> length (messages s) + 1" using t k by linarith
      then show ?thesis using m t k by simp
    qed
    show ?thesis using a bb m l by simp
  qed
  have 2: "buffer_bounded (clear s)" "messages (clear s) = []"
    using k by (simp_all add: clear_def buffer_bounded_def)
  have kc: "0 < messages_to_keep (clear s)" using k by (simp add: clear_def)
  have 3: "buffer_bounded (snd (load_from_messages ms s))
              \<and> (\<exists>older. map to_lc_message (takeWhile valid_role ms)
                             = older @ messages (snd (load_from_messages ms s)))
              \<and> (fst (load_from_messages ms s) = None \<longleftrightarrow> list_all valid_role ms)" for ms
    using load_loop_inv[OF kc 2(1), of ms] 2(2) by (simp add: load_from_messages_def)
  have 4: "messages (snd (load_messages_batch ms s))
                  = messages s @ map to_lc_message (takeWhile valid_role ms)
              \<and> (fst (load_messages_batch ms s) = None \<longleftrightarrow> list_all valid_role ms)
              \<and> (buffer_bounded (snd (load_messages_batch ms s)) \<longleftrightarrow>
                    int (length (messages s)) + int (length (takeWhile valid_role ms))
                      \<le> 2 * messages_to_keep s)" for ms
    by (simp add: buffer_bounded_def load_messages_batch_messages load_messages_batch_keep
        load_messages_batch_outcome)
  show ?thesis using 1 2 3 4 add_message_invalid by blast
qed

theorem buffer_bound_preserved_witness:
  "0 < messages_to_keep full_buffer
   \<and> buffer_bounded full_buffer
   \<and> valid_role \<lparr>role = ''user'', content = ''c''\<rparr>
   \<and> 2 * messages_to_keep full_buffer < int (length (messages full_buffer)) + 1
   \<and> ShortTermMemory_add_message ''user'' ''c'' full_buffer
       = Inr (full_buffer\<lparr>messages := [HumanMessage ''c'']\<rparr>)
   \<and> \<not> valid_role \<lparr>role = ''system'', content = ''c''\<rparr>
   \<and> ShortTermMemory_add_message ''system'' ''c'' full_buffer = Inl (invalid_role ''system'')
   \<and> messages (clear full_buffer) = []
   \<and> load_from_messages
         [\<lparr>role = ''user'', content = ''x''\<rparr>, \<lparr>role = ''system'', content = ''y''\<rparr>,
          \<lparr>role = ''user'', content = ''z''\<rparr>] full_buffer
       = (Some (invalid_role ''system''), full_buffer\<lparr>messages := [HumanMessage ''x'']\<rparr>)
   \<and> buffer_bounded (full_buffer\<lparr>messages := [HumanMessage ''x'']\<rparr>)
   \<and> messages (snd (load_messages_batch [\<lparr>role = ''user'', content = ''x''\<rparr>] full_buffer))
       = [HumanMessage ''a'', AIMessage ''b'', HumanMessage ''x'']
   \<and> \<not> buffer_bounded (snd (load_messages_batch [\<lparr>role = ''user'', content = ''x''\<rparr>] full_buffer))"
proof -
  let ?ms = "[\<lparr>role = ''user'', content = ''x''\<rparr>, \<lparr>role = ''system'', content = ''y''\<rparr>,
              \<lparr>role = ''user'', content = ''z''\<rparr>]"
  have h1: "0 < messages_to_keep full_buffer" by code_simp
  have h2: "buffer_bounded full_buffer" by code_simp
  have h3: "valid_role \<lparr>role = ''user'', content = ''c''\<rparr>" by code_simp
  have h4: "2 * messages_to_keep full_buffer < int (length (messages full_buffer)) + 1"
    by code_simp
  have h5: "\<not> valid_role \<lparr>role = ''system'', content = ''c''\<rparr>" by code_simp
  have h6: "\<not> int (length (messages full_buffer))
              + int (length (takeWhile valid_role [\<lparr>role = ''user'', content = ''x''\<rparr>]))
              \<le> 2 * messages_to_keep full_buffer" by code_simp
  have e1: "drop (length (messages full_buffer) + 1 - nat (messages_to_keep full_buffer))
              (messages full_buffer @ [to_lc_message \<lparr>role = ''user'', content = ''c''\<rparr>])
            = [HumanMessage ''c'']" by code_simp
  have e2: "load_from_messages ?ms full_buffer
       = (Some (invalid_role ''system''), full_buffer\<lparr>messages := [HumanMessage ''x'']\<rparr>)"
    by code_simp
  have e3: "messages full_buffer @ map to_lc_message (takeWhile valid_role [\<lparr>role = ''user'', content = ''x''\<rparr>])
              = [HumanMessage ''a'', AIMessage ''b'', HumanMessage ''x'']" by code_simp
  note t = buffer_bound_preserved[OF h1 h2]
  from t h3 h4 obtain s' where
    a: "ShortTermMemory_add_message ''user'' ''c'' full_buffer = Inr s'"
    and m: "messages s' = drop (length (messages full_buffer) + 1 - nat (messages_to_keep full_buffer))
              (messages full_buffer @ [to_lc_message \<lparr>role = ''user'', content = ''c''\<rparr>])"
    by (metis (no_types, lifting))
  have "s' = trim_buffer (full_buffer\<lparr>messages := messages full_buffer @ [HumanMessage ''c'']\<rparr>)"
    using a by (simp add: ShortTermMemory_add_message_def)
  then have "s' = full_buffer\<lparr>messages := messages s'\<rparr>"
    by (simp add: trim_buffer_def)
  then have c1: "ShortTermMemory_add_message ''user'' ''c'' full_buffer
       = Inr (full_buffer\<lparr>messages := [HumanMessage ''c'']\<rparr>)"
    using a m e1 by simp
  from t h5 have c2: "ShortTermMemory_add_message ''system'' ''c'' full_buffer
                        = Inl (invalid_role ''system'')" by blast
  from t have c3: "messages (clear full_buffer) = []" by blast
  from t have "buffer_bounded (snd (load_from_messages ?ms full_buffer))" by blast
  then have c4: "buffer_bounded (full_buffer\<lparr>messages := [HumanMessage ''x'']\<rparr>)"
    using e2 by simp
  from t have "messages (snd (load_messages_batch [\<lparr>role = ''user'', content = ''x''\<rparr>] full_buffer))
       = messages full_buffer @ map to_lc_message (takeWhile valid_role [\<lparr>role = ''user'', content = ''x''\<rparr>])"
    by blast
  then have c5: "messages (snd (load_messages_batch [\<lparr>role = ''user'', content = ''x''\<rparr>] full_buffer))
       = [HumanMessage ''a'', AIMessage ''b'', HumanMessage ''x'']" using e3 by simp
  from t h6 have c6: "\<not> buffer_bounded (snd (load_messages_batch [\<lparr>role = ''user'', content = ''x''\<rparr>] full_buffer))"
    by blast
  show ?thesis using h1 h2 h3 h4 h5 c1 c2 c3 e2 c4 c5 c6 by simp
qed

text \<open>
  The claim of C2 fails as stated for \<open>load_messages_batch\<close>: with a keep size of 1,
  a batch of three valid messages loaded into the empty buffer leaves three messages in
  the buffer.
\<close>

theorem buffer_bound_batch_counterexample:
  "0 < messages_to_keep (ShortTermMemory_init default_settings None (Some 1) None)
   \<and> buffer_bounded (ShortTermMemory_init default_settings None (Some 1) None)
   \<and> fst (load_messages_batch
             [\<lparr>role = ''user'', content = ''a''\<rparr>, \<lparr>role = ''assistant'', content = ''b''\<rparr>,
              \<lparr>role = ''user'', content = ''c''\<rparr>]
             (ShortTermMemory_init default_settings None (Some 1) None)) = None
   \<and> messages (snd (load_messages_batch
             [\<lparr>role = ''user'', content = ''a''\<rparr>, \<lparr>role = ''assistant'', content = ''b''\<rparr>,
              \<lparr>role = ''user'', content = ''c''\<rparr>]
             (ShortTermMemory_init default_settings None (Some 1) None)))
       = [HumanMessage ''a'', AIMessage ''b'', HumanMessage ''c'']
   \<and> \<not> buffer_bounded (snd (load_messages_batch
             [\<lparr>role = ''user'', content = ''a''\<rparr>, \<lparr>role = ''assistant'', content = ''b''\<rparr>,
              \<lparr>role = ''user'', content = ''c''\<rparr>]
             (ShortTermMemory_init default_settings None (Some 1) None)))"
  by code_simp

section \<open>The summarization trigger\<close>

lemma positive_multiple:
  assumes "0 < (T::int)"
  shows "(T \<le> n \<and> n mod T = 0) \<longleftrightarrow> (\<exists>k>0. n = k * T)"
proof
  assume a: "T \<le> n \<and> n mod T = 0"
  then have "n = (n div T) * T" by auto
  moreover have "0 < n div T" using a assms by (simp add: pos_imp_zdiv_pos_iff)
  ultimately show "\<exists>k>0. n = k * T" by blast
next
  assume "\<exists>k>0. n = k * T"
  then obtain k where k: "0 < k" "n = k * T" by blast
  then have "T \<le> n" using assms by (simp add: mult_le_cancel_right1)
  then show "T \<le> n \<and> n mod T = 0" using k by simp
qed

lemma update_session_succeeds:
  assumes row: "get_session sid db = Some s"
    and ok: "commit_succeeds e"
  shows "\<exists>db'. update_session e sid \<lparr>su_summary = Some v, su_total_messages = None,
                  su_session_metadata = None\<rparr> db
               = (Inr (s\<lparr>cs_summary := Some v, cs_last_activity := client_now e\<rparr>), db')
             \<and> get_session sid db'
                 = Some (s\<lparr>cs_summary := Some v, cs_last_activity := client_now e\<rparr>)"
proof -
  let ?s' = "s\<lparr>cs_summary := Some v, cs_last_activity := client_now e\<rparr>"
  let ?db' = "db\<lparr>chat_sessions := map (\<lambda>r. if cs_id r = cs_id ?s' then ?s' else r) (chat_sessions db)\<rparr>"
  note gs = get_session_Some[OF row]
  have c: "commit e [UpdateSession ?s'] db = Inr ?db'"
    using ok gs(3) by (simp add: commit_def)
  have rs: "refresh_session (cs_id ?s') ?db' = Inr ?s'"
    using find_replace_by_id[OF gs(3), of ?s'] by (simp add: refresh_session_def)
  have g: "get_session sid ?db' = Some ?s'"
    using find_replace_by_session_id[OF row[unfolded get_session_def], of ?s'] gs(1)
    by (simp add: get_session_def)
  have "update_session e sid \<lparr>su_summary = Some v, su_total_messages = None,
                  su_session_metadata = None\<rparr> db = (Inr ?s', ?db')"
    using row c rs by (simp add: update_session_def apply_update_def Let_def)
  then show ?thesis using g by blast
qed

lemma update_session_rejected:
  assumes row: "get_session sid db = Some s"
    and no: "\<not> commit_succeeds e"
  shows "fst (update_session e sid u db) = Inl (DatabaseError ''OperationalError'')"
  using row no by (simp add: update_session_def commit_def Let_def)

text \<open>The three ways the check can end without an exception.\<close>

lemma check_and_update_summary_result:
  assumes T: "0 < memory_summary_trigger st"
    and sync: "get_session (um_session_id m) db = Some (session m)"
    and res: "check_and_update_summary st c e m db = (Inr requested, m', db')"
  shows "(requested \<longleftrightarrow> (memory_summary_trigger st \<le> cs_total_messages (session m)
                          \<and> cs_total_messages (session m) mod memory_summary_trigger st = 0))
    \<and> short_term m' = short_term m
    \<and> um_session_id m' = um_session_id m
    \<and> cs_total_messages (session m') = cs_total_messages (session m)
    \<and> get_session (um_session_id m') db' = Some (session m')
    \<and> (requested \<longrightarrow>
          (\<exists>summary. get_conversation_summary (invoke_llm c) (encode c) (short_term m) = Inr summary
             \<and> (summary \<noteq> [] \<longrightarrow> cs_summary (session m') = Some summary)
             \<and> (summary = [] \<longrightarrow> session m' = session m \<and> db' = db)))
    \<and> (\<not> requested \<longrightarrow> session m' = session m \<and> db' = db)"
proof -
  let ?due = "memory_summary_trigger st \<le> cs_total_messages (session m)
                \<and> cs_total_messages (session m) mod memory_summary_trigger st = 0"
  have due: "summary_due st (cs_total_messages (session m)) = Inr ?due"
    using T by (simp add: summary_due_def)
  show ?thesis
  proof (cases ?due)
    case False
    then have "summary_due st (cs_total_messages (session m)) = Inr False"
      using due by simp
    then have "check_and_update_summary st c e m db = (Inr False, m, db)"
      by (simp add: check_and_update_summary_def)
    then show ?thesis using res False sync by auto
  next
    case True
    then have d: "summary_due st (cs_total_messages (session m)) = Inr True"
      using due by simp
    show ?thesis
    proof (cases "get_conversation_summary (invoke_llm c) (encode c) (short_term m)")
      case (Inl err)
      then have "check_and_update_summary st c e m db = (Inl err, m, db)"
        using d by (simp add: check_and_update_summary_def)
      then show ?thesis using res by simp
    next
      case (Inr summary)
      show ?thesis
      proof (cases "summary = []")
        case empty: True
        then have "check_and_update_summary st c e m db = (Inr True, m, db)"
          using d Inr by (simp add: check_and_update_summary_def)
        then show ?thesis using res True sync Inr empty by auto
      next
        case store: False
        show ?thesis
        proof (cases "commit_succeeds e")
          case ok: True
          from update_session_succeeds[OF sync ok, of summary] obtain d' where
            u: "update_session e (um_session_id m)
                  \<lparr>su_summary = Some summary, su_total_messages = None,
                    su_session_metadata = None\<rparr> db
                = (Inr ((session m)\<lparr>cs_summary := Some summary,
                                     cs_last_activity := client_now e\<rparr>), d')"
            and g: "get_session (um_session_id m) d'
                = Some ((session m)\<lparr>cs_summary := Some summary,
                                     cs_last_activity := client_now e\<rparr>)"
            by blast
          have "check_and_update_summary st c e m db =
                  (Inr True, m\<lparr>session := (session m)\<lparr>cs_summary := Some summary,
                                     cs_last_activity := client_now e\<rparr>\<rparr>, d')"
            using d Inr store u by (simp add: check_and_update_summary_def)
          then show ?thesis using res True Inr store g by auto
        next
          case no: False
          obtain r d' where u: "update_session e (um_session_id m)
                  \<lparr>su_summary = Some summary, su_total_messages = None,
                    su_session_metadata = None\<rparr> db = (r, d')"
            by (cases "update_session e (um_session_id m)
                  \<lparr>su_summary = Some summary, su_total_messages = None,
                    su_session_metadata = None\<rparr> db")
          then have "r = Inl (DatabaseError ''OperationalError'')"
            using update_session_rejected[OF sync no, of "\<lparr>su_summary = Some summary,
              su_total_messages = None, su_session_metadata = None\<rparr>"] by simp
          then have "fst (check_and_update_summary st c e m db)
                       = Inl (DatabaseError ''OperationalError'')"
            using d Inr store u by (simp add: check_and_update_summary_def)
          then show ?thesis using res by simp
        qed
      qed
    qed
  qed
qed

lemma check_and_update_summary_succeeds:
  assumes T: "0 < memory_summary_trigger st"
    and sync: "get_session (um_session_id m) db = Some (session m)"
    and ok: "commit_succeeds e"
    and summ: "get_conversation_summary (invoke_llm c) (encode c) (short_term m) = Inr summary"
  shows "\<exists>requested m' db'. check_and_update_summary st c e m db = (Inr requested, m', db')"
proof -
  let ?due = "memory_summary_trigger st \<le> cs_total_messages (session m)
                \<and> cs_total_messages (session m) mod memory_summary_trigger st = 0"
  have due: "summary_due st (cs_total_messages (session m)) = Inr ?due"
    using T by (simp add: summary_due_def)
  show ?thesis
  proof (cases ?due)
    case False
    then have "summary_due st (cs_total_messages (session m)) = Inr False"
      using due by simp
    then show ?thesis by (auto simp: check_and_update_summary_def)
  next
    case True
    then have d: "summary_due st (cs_total_messages (session m)) = Inr True"
      using due by simp
    from update_session_succeeds[OF sync ok, of summary] obtain d' where
      "update_session e (um_session_id m)
                  \<lparr>su_summary = Some summary, su_total_messages = None,
                    su_session_metadata = None\<rparr> db
                = (Inr ((session m)\<lparr>cs_summary := Some summary,
                                     cs_last_activity := client_now e\<rparr>), d')"
      by blast
    then show ?thesis using d summ by (auto simp: check_and_update_summary_def)
  qed
qed

lemma after_add_message:
  assumes sync: "get_session (um_session_id m) db = Some (session m)"
    and res: "LongTermMemory_add_message e
                \<lparr>mc_session_id = um_session_id m, mc_role = r, mc_content = text,
                  mc_sources = src, mc_token_count = None\<rparr> (session m) db
              = (Inr (msg, s), db1)"
  shows "get_session (um_session_id m) db1 = Some s
       \<and> cs_total_messages s = cs_total_messages (session m) + 1
       \<and> cs_summary s = cs_summary (session m)"
proof (cases "commit_succeeds e")
  case True
  from add_message_success[OF sync _ True, of "\<lparr>mc_session_id = um_session_id m, mc_role = r,
        mc_content = text, mc_sources = src, mc_token_count = None\<rparr>"] res
  show ?thesis by auto
next
  case False
  from add_message_rejected[OF False] res show ?thesis by simp
qed

lemma add_to_semantic_memory_keeps:
  "add_to_semantic_memory c m = Inr m1 \<Longrightarrow>
   session m1 = session m \<and> short_term m1 = short_term m \<and> um_session_id m1 = um_session_id m"
  by (auto simp: add_to_semantic_memory_def Let_def split: if_splits sum.splits)

lemma add_to_semantic_memory_succeeds:
  "embedding_succeeds c \<Longrightarrow> \<exists>m1. add_to_semantic_memory c m = Inr m1"
  by (simp add: add_to_semantic_memory_def add_conversation_snippet_def Let_def)

text \<open>The constructor leaves the manager holding the persisted row of its session.\<close>

lemma manager_init_in_sync:
  assumes fresh: "session_ids_fresh db"
    and init: "UnifiedMemoryManager_init st q e stored sid pdf_ids user_id db = (Inr m, db')"
  shows "um_session_id m = sid \<and> get_session (um_session_id m) db' = Some (session m)"
proof -
  obtain r d where g: "get_or_create_session e sid pdf_ids user_id db = (r, d)"
    by (cases "get_or_create_session e sid pdf_ids user_id db")
  from init g obtain s where r: "r = Inr s"
    by (cases r) (auto simp: UnifiedMemoryManager_init_def)
  have m: "um_session_id m = sid \<and> session m = s \<and> db' = d"
    using init g r by (auto simp: UnifiedMemoryManager_init_def split: sum.splits)
  have "get_session sid d = Some s"
  proof (cases "get_session sid db")
    case None
    from get_or_create_absent[OF None g[unfolded r] fresh] show ?thesis by simp
  next
    case (Some s0)
    then show ?thesis using g r by (simp add: get_or_create_session_def)
  qed
  then show ?thesis using m by simp
qed

text \<open>
  Claim C6. Let the summary trigger \<open>T\<close> be positive and let the manager hold the
  persisted row of its session. Whenever \<open>add_user_message\<close> or
  \<open>add_assistant_message\<close> returns, the counter of the session is one higher, and the
  summary was requested from the short-term memory exactly when the counter is at least
  \<open>T\<close> and divisible by \<open>T\<close>, that is, exactly when it is a positive multiple of
  \<open>T\<close>. The session the manager holds afterwards is the persisted row. When the
  summary was requested, the short-term memory returned one, and if it is not empty it
  is the \<open>summary\<close> field of that row, whatever the field held before; when it is
  empty or was not requested the field is unchanged. Both calls do return when the
  commits succeed, the tokenizer accepts the buffer and, for the assistant message, the
  embedding succeeds.
\<close>

theorem summary_trigger:
  assumes T: "0 < memory_summary_trigger st"
    and sync: "get_session (um_session_id m) db = Some (session m)"
  shows "(\<forall>msg requested m' db'.
            add_user_message st c e e' text m db = (Inr (msg, requested), m', db')
            \<or> add_assistant_message st c e e' text sources m db = (Inr (msg, requested), m', db')
            \<longrightarrow>
              cs_total_messages (session m') = cs_total_messages (session m) + 1
              \<and> (requested \<longleftrightarrow>
                   (memory_summary_trigger st \<le> cs_total_messages (session m')
                    \<and> cs_total_messages (session m') mod memory_summary_trigger st = 0))
              \<and> (requested \<longleftrightarrow>
                   (\<exists>k>0. cs_total_messages (session m') = k * memory_summary_trigger st))
              \<and> get_session (um_session_id m') db' = Some (session m')
              \<and> (requested \<longrightarrow>
                   (\<exists>summary.
                      get_conversation_summary (invoke_llm c) (encode c) (short_term m')
                        = Inr summary
                      \<and> (summary \<noteq> [] \<longrightarrow> cs_summary (session m') = Some summary)
                      \<and> (summary = [] \<longrightarrow> cs_summary (session m') = cs_summary (session m))))
              \<and> (\<not> requested \<longrightarrow> cs_summary (session m') = cs_summary (session m)))
       \<and> (commit_succeeds e \<and> commit_succeeds e'
            \<and> (\<exists>summary. get_conversation_summary (invoke_llm c) (encode c)
                   (trim_buffer ((short_term m)
                      \<lparr>messages := messages (short_term m) @ [HumanMessage text]\<rparr>))
                 = Inr summary)
            \<longrightarrow> (\<exists>msg requested m' db'.
                   add_user_message st c e e' text m db = (Inr (msg, requested), m', db')))
       \<and> (commit_succeeds e \<and> commit_succeeds e' \<and> embedding_succeeds c
            \<and> (\<exists>summary. get_conversation_summary (invoke_llm c) (encode c)
                   (trim_buffer ((short_term m)
                      \<lparr>messages := messages (short_term m) @ [AIMessage text]\<rparr>))
                 = Inr summary)
            \<longrightarrow> (\<exists>msg requested m' db'.
                   add_assistant_message st c e e' text sources m db
                     = (Inr (msg, requested), m', db')))"
proof (intro conjI allI impI)
  fix msg requested m' db'
  assume call: "add_user_message st c e e' text m db = (Inr (msg, requested), m', db')
            \<or> add_assistant_message st c e e' text sources m db = (Inr (msg, requested), m', db')"
  have "\<exists>m1 db1. check_and_update_summary st c e' m1 db1 = (Inr requested, m', db')
          \<and> get_session (um_session_id m1) db1 = Some (session m1)
          \<and> cs_total_messages (session m1) = cs_total_messages (session m) + 1
          \<and> cs_summary (session m1) = cs_summary (session m)"
    using call
  proof
    assume u: "add_user_message st c e e' text m db = (Inr (msg, requested), m', db')"
    then obtain stm where stm: "ShortTermMemory_add_message ''user'' text (short_term m) = Inr stm"
      by (cases "ShortTermMemory_add_message ''user'' text (short_term m)")
         (auto simp: add_user_message_def)
    obtain r db1 where a: "LongTermMemory_add_message e
                \<lparr>mc_session_id = um_session_id m, mc_role = ''user'', mc_content = text,
                  mc_sources = None, mc_token_count = None\<rparr> (session m) db = (r, db1)"
      by (cases "LongTermMemory_add_message e
                \<lparr>mc_session_id = um_session_id m, mc_role = ''user'', mc_content = text,
                  mc_sources = None, mc_token_count = None\<rparr> (session m) db")
    from u stm a obtain msg1 s where r: "r = Inr (msg1, s)"
      by (cases r) (auto simp: add_user_message_def)
    let ?m1 = "m\<lparr>short_term := stm, session := s\<rparr>"
    have ch: "check_and_update_summary st c e' ?m1 db1 = (Inr requested, m', db')"
      using u stm a r by (auto simp: add_user_message_def split: prod.splits sum.splits)
    from after_add_message[OF sync a[unfolded r]]
    have g: "get_session (um_session_id m) db1 = Some s"
      and t: "cs_total_messages s = cs_total_messages (session m) + 1"
      and "cs_summary s = cs_summary (session m)" by auto
    then show ?thesis using ch g t by (intro exI[of _ ?m1] exI[of _ db1]) simp
  next
    assume u: "add_assistant_message st c e e' text sources m db = (Inr (msg, requested), m', db')"
    then obtain stm where stm: "ShortTermMemory_add_message ''assistant'' text (short_term m) = Inr stm"
      by (cases "ShortTermMemory_add_message ''assistant'' text (short_term m)")
         (auto simp: add_assistant_message_def)
    obtain r db1 where a: "LongTermMemory_add_message e
                \<lparr>mc_session_id = um_session_id m, mc_role = ''assistant'', mc_content = text,
                  mc_sources = sources, mc_token_count = None\<rparr> (session m) db = (r, db1)"
      by (cases "LongTermMemory_add_message e
                \<lparr>mc_session_id = um_session_id m, mc_role = ''assistant'', mc_content = text,
                  mc_sources = sources, mc_token_count = None\<rparr> (session m) db")
    from u stm a obtain msg1 s where r: "r = Inr (msg1, s)"
      by (cases r) (auto simp: add_assistant_message_def)
    let ?m0 = "m\<lparr>short_term := stm, session := s\<rparr>"
    obtain m1 where m1: "(if cs_total_messages s mod 4 = 0 then add_to_semantic_memory c ?m0
                          else Inr ?m0) = Inr m1"
      using u stm a r
      by (cases "if cs_total_messages s mod 4 = 0 then add_to_semantic_memory c ?m0 else Inr ?m0")
         (auto simp: add_assistant_message_def)
    have ch: "check_and_update_summary st c e' m1 db1 = (Inr requested, m', db')"
      using u stm a r m1 by (auto simp: add_assistant_message_def split: prod.splits sum.splits)
    have k: "session m1 = s \<and> um_session_id m1 = um_session_id m"
      using m1 add_to_semantic_memory_keeps[of c ?m0 m1] by (auto split: if_splits)
    from after_add_message[OF sync a[unfolded r]]
    have g: "get_session (um_session_id m) db1 = Some s"
      and t: "cs_total_messages s = cs_total_messages (session m) + 1"
      and "cs_summary s = cs_summary (session m)" by auto
    then show ?thesis using ch g t k by (intro exI[of _ m1] exI[of _ db1]) simp
  qed
  then obtain m1 db1 where ch: "check_and_update_summary st c e' m1 db1 = (Inr requested, m', db')"
    and g: "get_session (um_session_id m1) db1 = Some (session m1)"
    and t: "cs_total_messages (session m1) = cs_total_messages (session m) + 1"
    and su: "cs_summary (session m1) = cs_summary (session m)" by blast
  note cc = check_and_update_summary_result[OF T g ch]
  have sh: "short_term m' = short_term m1" using cc by blast
  show "cs_total_messages (session m') = cs_total_messages (session m) + 1"
    using cc t by simp
  show rq: "requested \<longleftrightarrow> (memory_summary_trigger st \<le> cs_total_messages (session m')
             \<and> cs_total_messages (session m') mod memory_summary_trigger st = 0)"
    using cc by simp
  show "requested \<longleftrightarrow> (\<exists>k>0. cs_total_messages (session m') = k * memory_summary_trigger st)"
    using rq positive_multiple[OF T, of "cs_total_messages (session m')"] by simp
  show "get_session (um_session_id m') db' = Some (session m')"
    using cc by blast
  show "\<exists>summary. get_conversation_summary (invoke_llm c) (encode c) (short_term m') = Inr summary
          \<and> (summary \<noteq> [] \<longrightarrow> cs_summary (session m') = Some summary)
          \<and> (summary = [] \<longrightarrow> cs_summary (session m') = cs_summary (session m))"
    if requested
  proof -
    from cc that obtain summary where
      "get_conversation_summary (invoke_llm c) (encode c) (short_term m1) = Inr summary"
      "summary \<noteq> [] \<longrightarrow> cs_summary (session m') = Some summary"
      "summary = [] \<longrightarrow> session m' = session m1 \<and> db' = db1"
      by blast
    then show ?thesis using sh su by auto
  qed
  show "cs_summary (session m') = cs_summary (session m)" if "\<not> requested"
    using cc su that by auto
next
  assume a: "commit_succeeds e \<and> commit_succeeds e'
            \<and> (\<exists>summary. get_conversation_summary (invoke_llm c) (encode c)
                   (trim_buffer ((short_term m)
                      \<lparr>messages := messages (short_term m) @ [HumanMessage text]\<rparr>))
                 = Inr summary)"
  let ?stm = "trim_buffer ((short_term m)
                \<lparr>messages := messages (short_term m) @ [HumanMessage text]\<rparr>)"
  have stm: "ShortTermMemory_add_message ''user'' text (short_term m) = Inr ?stm"
    by (simp add: ShortTermMemory_add_message_def)
  from a obtain summary where
    summ: "get_conversation_summary (invoke_llm c) (encode c) ?stm = Inr summary" by blast
  from add_message_success[OF sync, of "\<lparr>mc_session_id = um_session_id m, mc_role = ''user'',
      mc_content = text, mc_sources = None, mc_token_count = None\<rparr>" e] a
  obtain msg s db1 where am: "LongTermMemory_add_message e
                \<lparr>mc_session_id = um_session_id m, mc_role = ''user'', mc_content = text,
                  mc_sources = None, mc_token_count = None\<rparr> (session m) db
              = (Inr (msg, s), db1)"
    and g: "get_session (um_session_id m) db1 = Some s"
    by auto
  let ?m1 = "m\<lparr>short_term := ?stm, session := s\<rparr>"
  from check_and_update_summary_succeeds[OF T, of ?m1 db1 e' c summary] g a summ
  obtain requested m' db' where
    "check_and_update_summary st c e' ?m1 db1 = (Inr requested, m', db')" by auto
  then have "add_user_message st c e e' text m db = (Inr (msg, requested), m', db')"
    using stm am by (simp add: add_user_message_def)
  then show "\<exists>msg requested m' db'.
                   add_user_message st c e e' text m db = (Inr (msg, requested), m', db')"
    by blast
next
  assume a: "commit_succeeds e \<and> commit_succeeds e' \<and> embedding_succeeds c
            \<and> (\<exists>summary. get_conversation_summary (invoke_llm c) (encode c)
                   (trim_buffer ((short_term m)
                      \<lparr>messages := messages (short_term m) @ [AIMessage text]\<rparr>))
                 = Inr summary)"
  let ?stm = "trim_buffer ((short_term m)
                \<lparr>messages := messages (short_term m) @ [AIMessage text]\<rparr>)"
  have stm: "ShortTermMemory_add_message ''assistant'' text (short_term m) = Inr ?stm"
    by (simp add: ShortTermMemory_add_message_def)
  from a obtain summary where
    summ: "get_conversation_summary (invoke_llm c) (encode c) ?stm = Inr summary" by blast
  from add_message_success[OF sync, of "\<lparr>mc_session_id = um_session_id m,
      mc_role = ''assistant'', mc_content = text, mc_sources = sources,
      mc_token_count = None\<rparr>" e] a
  obtain msg s db1 where am: "LongTermMemory_add_message e
                \<lparr>mc_session_id = um_session_id m, mc_role = ''assistant'', mc_content = text,
                  mc_sources = sources, mc_token_count = None\<rparr> (session m) db
              = (Inr (msg, s), db1)"
    and g: "get_session (um_session_id m) db1 = Some s"
    by auto
  let ?m0 = "m\<lparr>short_term := ?stm, session := s\<rparr>"
  obtain m1 where m1: "(if cs_total_messages s mod 4 = 0 then add_to_semantic_memory c ?m0
                          else Inr ?m0) = Inr m1"
    using add_to_semantic_memory_succeeds[of c ?m0] a by (cases "cs_total_messages s mod 4 = 0") auto
  have k: "session m1 = s \<and> um_session_id m1 = um_session_id m \<and> short_term m1 = ?stm"
    using m1 add_to_semantic_memory_keeps[of c ?m0 m1] by (auto split: if_splits)
  from check_and_update_summary_succeeds[OF T, of m1 db1 e' c summary] g a summ k
  obtain requested m' db' where
    "check_and_update_summary st c e' m1 db1 = (Inr requested, m', db')" by auto
  then have "add_assistant_message st c e e' text sources m db = (Inr (msg, requested), m', db')"
    using stm am m1 by (simp add: add_assistant_message_def)
  then show "\<exists>msg requested m' db'.
                   add_assistant_message st c e e' text sources m db
                     = (Inr (msg, requested), m', db')"
    by blast
qed

theorem summary_trigger_witness:
  "0 < memory_summary_trigger settings_t3
   \<and> get_session (um_session_id manager_s1) tied_database = Some (session manager_s1)
   \<and> commit_succeeds (env_at 7) \<and> commit_succeeds (env_at 8)
   \<and> embedding_succeeds example_collaborators
   \<and> cs_total_messages (session manager_s1) = 2
   \<and> cs_summary (session manager_s1) = None
   \<and> fst (add_user_message settings_t3 example_collaborators (env_at 7) (env_at 8)
             ''d'' manager_s1 tied_database)
       = Inr (\<lparr>cm_id = 3, cm_session_id = ''s1'', cm_role = ''user'', cm_content = ''d'',
                cm_timestamp = 7, cm_sources = None, cm_token_count = None\<rparr>, True)
   \<and> cs_total_messages (session (fst (snd (add_user_message settings_t3 example_collaborators
         (env_at 7) (env_at 8) ''d'' manager_s1 tied_database)))) = 3
   \<and> cs_summary (session (fst (snd (add_user_message settings_t3 example_collaborators
         (env_at 7) (env_at 8) ''d'' manager_s1 tied_database)))) = Some ''A summary.''
   \<and> fst (add_assistant_message settings_t3 example_collaborators (env_at 7) (env_at 8)
             ''d'' None manager_s1 tied_database)
       = Inr (\<lparr>cm_id = 3, cm_session_id = ''s1'', cm_role = ''assistant'', cm_content = ''d'',
                cm_timestamp = 7, cm_sources = None, cm_token_count = None\<rparr>, True)
   \<and> cs_total_messages (session (fst (snd (add_assistant_message settings_t3
         example_collaborators (env_at 7) (env_at 8) ''d'' None manager_s1 tied_database)))) = 3
   \<and> cs_summary (session (fst (snd (add_assistant_message settings_t3
         example_collaborators (env_at 7) (env_at 8) ''d'' None manager_s1 tied_database))))
       = Some ''A summary.''"
proof -
  let ?U = "add_user_message settings_t3 example_collaborators (env_at 7) (env_at 8)
              ''d'' manager_s1 tied_database"
  let ?A = "add_assistant_message settings_t3 example_collaborators (env_at 7) (env_at 8)
              ''d'' None manager_s1 tied_database"
  have h1: "0 < memory_summary_trigger settings_t3" by code_simp
  have h2: "get_session (um_session_id manager_s1) tied_database = Some (session manager_s1)"
    by code_simp
  have h3: "commit_succeeds (env_at 7) \<and> commit_succeeds (env_at 8)
            \<and> embedding_succeeds example_collaborators" by code_simp
  have h4: "cs_total_messages (session manager_s1) = 2 \<and> cs_summary (session manager_s1) = None"
    by code_simp
  have tu: "\<exists>summary. get_conversation_summary (invoke_llm example_collaborators)
                (encode example_collaborators)
                (trim_buffer ((short_term manager_s1)
                   \<lparr>messages := messages (short_term manager_s1) @ [HumanMessage ''d'']\<rparr>))
              = Inr summary"
    by (rule exI[of _ "''A summary.''"]) code_simp
  have ta: "\<exists>summary. get_conversation_summary (invoke_llm example_collaborators)
                (encode example_collaborators)
                (trim_buffer ((short_term manager_s1)
                   \<lparr>messages := messages (short_term manager_s1) @ [AIMessage ''d'']\<rparr>))
              = Inr summary"
    by (rule exI[of _ "''A summary.''"]) code_simp
  have su: "get_conversation_summary (invoke_llm example_collaborators)
                (encode example_collaborators) (short_term (fst (snd ?U))) = Inr ''A summary.''"
    by code_simp
  have sa: "get_conversation_summary (invoke_llm example_collaborators)
                (encode example_collaborators) (short_term (fst (snd ?A))) = Inr ''A summary.''"
    by code_simp
  have mu: "fst (projr (fst ?U)) = \<lparr>cm_id = 3, cm_session_id = ''s1'', cm_role = ''user'',
                cm_content = ''d'', cm_timestamp = 7, cm_sources = None, cm_token_count = None\<rparr>"
    by code_simp
  have ma: "fst (projr (fst ?A)) = \<lparr>cm_id = 3, cm_session_id = ''s1'', cm_role = ''assistant'',
                cm_content = ''d'', cm_timestamp = 7, cm_sources = None, cm_token_count = None\<rparr>"
    by code_simp
  note t = summary_trigger[OF h1 h2, of example_collaborators "env_at 7" "env_at 8" "''d''" None]
  note props = t[THEN conjunct1, rule_format]
  from t h3 tu obtain msg requested m' db' where u: "?U = (Inr (msg, requested), m', db')"
    by blast
  from t h3 ta obtain msg2 requested2 m2 db2 where a: "?A = (Inr (msg2, requested2), m2, db2)"
    by blast
  have pu: "cs_total_messages (session m') = 3 \<and> requested
            \<and> cs_summary (session m') = Some ''A summary.''"
  proof -
    note p = props[OF disjI1[OF u]]
    have tot: "cs_total_messages (session m') = 3" using p h4 by simp
    have rq: requested using p tot h1 by (simp add: settings_t3_def)
    have "m' = fst (snd ?U)" using u by simp
    then have "get_conversation_summary (invoke_llm example_collaborators)
                (encode example_collaborators) (short_term m') = Inr ''A summary.''"
      using su by simp
    then have "cs_summary (session m') = Some ''A summary.''" using p rq by auto
    then show ?thesis using tot rq by simp
  qed
  have pa: "cs_total_messages (session m2) = 3 \<and> requested2
            \<and> cs_summary (session m2) = Some ''A summary.''"
  proof -
    note p = props[OF disjI2[OF a]]
    have tot: "cs_total_messages (session m2) = 3" using p h4 by simp
    have rq: requested2 using p tot h1 by (simp add: settings_t3_def)
    have "m2 = fst (snd ?A)" using a by simp
    then have "get_conversation_summary (invoke_llm example_collaborators)
                (encode example_collaborators) (short_term m2) = Inr ''A summary.''"
      using sa by simp
    then have "cs_summary (session m2) = Some ''A summary.''" using p rq by auto
    then show ?thesis using tot rq by simp
  qed
  have fu: "fst ?U = Inr (\<lparr>cm_id = 3, cm_session_id = ''s1'', cm_role = ''user'',
                cm_content = ''d'', cm_timestamp = 7, cm_sources = None,
                cm_token_count = None\<rparr>, True)"
    using u pu mu by simp
  have fa: "fst ?A = Inr (\<lparr>cm_id = 3, cm_session_id = ''s1'', cm_role = ''assistant'',
                cm_content = ''d'', cm_timestamp = 7, cm_sources = None,
                cm_token_count = None\<rparr>, True)"
    using a pa ma by simp
  have "cs_total_messages (session (fst (snd ?U))) = 3"
    "cs_summary (session (fst (snd ?U))) = Some ''A summary.''"
    using u pu by simp_all
  moreover have "cs_total_messages (session (fst (snd ?A))) = 3"
    "cs_summary (session (fst (snd ?A))) = Some ''A summary.''"
    using a pa by simp_all
  ultimately show ?thesis using h1 h2 h3 h4 fu fa by simp
qed

section \<open>The manager cache\<close>

lemma dict_set_keys:
  "map fst (dict_set k v d) = (if k \<in> set (map fst d) then map fst d else map fst d @ [k])"
  by (induction d) force+

lemma dict_set_nonempty: "dict_set k v d \<noteq> []"
  by (cases d) (auto split: if_splits)

lemma dict_set_fresh: "k \<notin> set (map fst d) \<Longrightarrow> dict_set k v d = d @ [(k, v)]"
  by (induction d) auto

lemma dict_del_head:
  "distinct (map fst ((k, v) # d)) \<Longrightarrow> dict_del k ((k, v) # d) = d"
  by (auto simp: dict_del_def filter_id_conv)

lemma evict_oldest_cons:
  assumes "memory_manager_cache s = (k, v) # rest"
    and "int (length ((k, v) # rest)) > max_cache_size s"
    and "distinct (map fst ((k, v) # rest))"
  shows "memory_manager_cache (evict_oldest s) = rest"
  using assms dict_del_head[OF assms(3)] by (simp add: evict_oldest_def)

text \<open>
  The lookup key contains a colon. As long as no session id contains one, no key of the
  dictionary does, and every call misses the cache and creates a manager.
\<close>

lemma colon_in_cache_key: "CHR '':'' \<in> set (cache_key sid pdf_ids)"
  by (simp add: cache_key_def)

lemma lookup_misses:
  assumes "\<forall>k \<in> set (map fst d). CHR '':'' \<notin> set k"
  shows "map_of d (cache_key sid pdf_ids) = None"
proof -
  have "cache_key sid pdf_ids \<notin> set (map fst d)"
    using assms colon_in_cache_key by blast
  then show ?thesis by (simp add: map_of_eq_None_iff)
qed

lemma cache_always_misses:
  assumes keys: "\<forall>k \<in> set (map fst (memory_manager_cache svc)). CHR '':'' \<notin> set k"
    and sid: "CHR '':'' \<notin> set sid"
    and call: "get_or_create_memory_manager st q e stored sid pdf_ids user_id svc db = (Inr r, svc', db')"
  shows "r = length (managers svc)
       \<and> map_of (memory_manager_cache svc') (cache_key sid' pdf_ids') = None
       \<and> (\<forall>k \<in> set (map fst (memory_manager_cache svc')). CHR '':'' \<notin> set k)"
proof -
  have miss: "map_of (memory_manager_cache svc) (cache_key sid pdf_ids) = None"
    using lookup_misses[OF keys] .
  obtain x d where i: "UnifiedMemoryManager_init st q e stored sid pdf_ids user_id db = (x, d)"
    by (cases "UnifiedMemoryManager_init st q e stored sid pdf_ids user_id db")
  from call miss i obtain mm where x: "x = Inr mm"
    by (cases x) (auto simp: get_or_create_memory_manager_def)
  let ?svc1 = "svc\<lparr>managers := managers svc @ [(length (managers svc), mm)],
                    memory_manager_cache :=
                      dict_set sid (length (managers svc)) (memory_manager_cache svc)\<rparr>"
  have r: "r = length (managers svc)" and s: "svc' = evict_oldest ?svc1"
    using call miss i x by (auto simp: get_or_create_memory_manager_def Let_def)
  have k1: "\<forall>k \<in> set (map fst (memory_manager_cache ?svc1)). CHR '':'' \<notin> set k"
    using keys sid by (auto simp: dict_set_keys simp del: set_map)
  have "set (map fst (memory_manager_cache (evict_oldest ?svc1)))
          \<subseteq> set (map fst (memory_manager_cache ?svc1))"
    by (auto simp: evict_oldest_def dict_del_def split: list.splits)
  then have k2: "\<forall>k \<in> set (map fst (memory_manager_cache svc')). CHR '':'' \<notin> set k"
    using k1 s by blast
  show ?thesis using r k2 lookup_misses[OF k2] by simp
qed

text \<open>
  The size bound and the order of eviction: a call that misses keeps the keys distinct
  and the size within \<open>max_cache_size\<close>, and when it adds a new key to a full
  dictionary, the first entry is the one that goes.
\<close>

lemma cache_eviction_fifo:
  assumes d: "distinct (map fst (memory_manager_cache svc))"
    and b: "int (length (memory_manager_cache svc)) \<le> max_cache_size svc"
    and miss: "map_of (memory_manager_cache svc) (cache_key sid pdf_ids) = None"
    and call: "get_or_create_memory_manager st q e stored sid pdf_ids user_id svc db = (Inr r, svc', db')"
  shows "distinct (map fst (memory_manager_cache svc'))
       \<and> int (length (memory_manager_cache svc')) \<le> max_cache_size svc'
       \<and> (sid \<notin> set (map fst (memory_manager_cache svc))
            \<and> int (length (memory_manager_cache svc)) = max_cache_size svc
            \<and> memory_manager_cache svc \<noteq> [] \<longrightarrow>
              memory_manager_cache svc' = tl (memory_manager_cache svc) @ [(sid, r)])"
proof -
  obtain x dd where i: "UnifiedMemoryManager_init st q e stored sid pdf_ids user_id db = (x, dd)"
    by (cases "UnifiedMemoryManager_init st q e stored sid pdf_ids user_id db")
  from call miss i obtain mm where x: "x = Inr mm"
    by (cases x) (auto simp: get_or_create_memory_manager_def)
  let ?c1 = "dict_set sid (length (managers svc)) (memory_manager_cache svc)"
  let ?svc1 = "svc\<lparr>managers := managers svc @ [(length (managers svc), mm)],
                    memory_manager_cache := ?c1\<rparr>"
  have r: "r = length (managers svc)" and s: "svc' = evict_oldest ?svc1"
    using call miss i x by (auto simp: get_or_create_memory_manager_def Let_def)
  have d1: "distinct (map fst ?c1)" using d by (simp add: dict_set_keys)
  have l1: "length ?c1 \<le> Suc (length (memory_manager_cache svc))"
    using arg_cong[OF dict_set_keys[of sid "length (managers svc)" "memory_manager_cache svc"], of length]
    by (simp split: if_splits)
  have mx: "max_cache_size svc' = max_cache_size svc"
    using s by (simp add: evict_oldest_def split: list.splits)
  show ?thesis
  proof (cases "int (length ?c1) > max_cache_size svc")
    case False
    then have "svc' = ?svc1" using s by (simp add: evict_oldest_def)
    moreover have "\<not> (sid \<notin> set (map fst (memory_manager_cache svc))
            \<and> int (length (memory_manager_cache svc)) = max_cache_size svc)"
      using False by (auto simp: dict_set_fresh)
    ultimately show ?thesis using d1 False by auto
  next
    case True
    obtain k v rest where c1: "?c1 = (k, v) # rest"
      using dict_set_nonempty[of sid "length (managers svc)" "memory_manager_cache svc"]
      by (cases ?c1) auto
    have e: "memory_manager_cache svc' = rest"
      using s True d1 c1 evict_oldest_cons[of ?svc1 k v rest] by simp
    have "distinct (map fst rest)" using d1 c1 by simp
    moreover have "int (length rest) \<le> max_cache_size svc"
      using l1 c1 b by simp
    moreover have "rest = tl (memory_manager_cache svc) @ [(sid, r)]"
      if "sid \<notin> set (map fst (memory_manager_cache svc))" "memory_manager_cache svc \<noteq> []"
      using that c1 r by (cases "memory_manager_cache svc") (auto simp: dict_set_fresh)
    ultimately show ?thesis using e mx by simp
  qed
qed

text \<open>
  Claim C1, evaluated on the code. The cache is looked up under
  \<open>session_id:sorted document ids\<close> and written under the session id alone. On a new
  service the first call for session \<open>s1\<close> with the document ids \<open>[1]\<close> creates
  manager 0 and stores it under \<open>s1\<close>; the second call with the same session and the
  same document ids looks up \<open>s1:(1,)\<close>, finds nothing, creates manager 1 and
  overwrites the entry.
\<close>

theorem cache_miss_on_repeated_call:
  "fst first_call = Inr 0
   \<and> memory_manager_cache (fst (snd first_call)) = [(''s1'', 0)]
   \<and> cache_key ''s1'' [1] = ''s1:(1,)''
   \<and> map_of (memory_manager_cache (fst (snd first_call))) (cache_key ''s1'' [1]) = None
   \<and> fst second_call = Inr 1
   \<and> memory_manager_cache (fst (snd second_call)) = [(''s1'', 1)]
   \<and> length (managers (fst (snd second_call))) = 2"
  by code_simp

end
